theory Spec2Isabelle
  imports Complex_Main "HOL-Library.Multiset"
begin

section \<open>The Python runtime the two modules rely on\<close>

text \<open>
  A Python \<open>str\<close> is a \<open>string\<close>; a character outside ASCII is written as the bytes of its
  UTF-8 encoding. Nothing below depends on the length of such a string.
\<close>

abbreviation nl :: string where "nl \<equiv> [CHR 0x0A]"
abbreviation o_acute :: string where "o_acute \<equiv> [CHR 0xC3, CHR 0xB3]"
abbreviation u_acute :: string where "u_acute \<equiv> [CHR 0xC3, CHR 0xBA]"
abbreviation i_acute :: string where "i_acute \<equiv> [CHR 0xC3, CHR 0xAD]"
abbreviation e_acute :: string where "e_acute \<equiv> [CHR 0xC3, CHR 0xA9]"
abbreviation I_acute :: string where "I_acute \<equiv> [CHR 0xC3, CHR 0x8D]"
abbreviation inverted_bang :: string where "inverted_bang \<equiv> [CHR 0xC2, CHR 0xA1]"
abbreviation bullet :: string where "bullet \<equiv> [CHR 0xE2, CHR 0x80, CHR 0xA2]"
abbreviation sym_envelope :: string where "sym_envelope \<equiv> [CHR 0xF0, CHR 0x9F, CHR 0x93, CHR 0xA7]"
abbreviation sym_phone :: string where "sym_phone \<equiv> [CHR 0xF0, CHR 0x9F, CHR 0x93, CHR 0xB1]"
abbreviation sym_bell :: string where "sym_bell \<equiv> [CHR 0xF0, CHR 0x9F, CHR 0x94, CHR 0x94]"
abbreviation sym_cart :: string where "sym_cart \<equiv> [CHR 0xF0, CHR 0x9F, CHR 0x9B, CHR 0x92]"
abbreviation sym_bubble :: string where "sym_bubble \<equiv> [CHR 0xF0, CHR 0x9F, CHR 0x92, CHR 0xAC]"
abbreviation sym_warning :: string where
  "sym_warning \<equiv> [CHR 0xE2, CHR 0x9A, CHR 0xA0, CHR 0xEF, CHR 0xB8, CHR 0x8F]"
abbreviation sym_check :: string where "sym_check \<equiv> [CHR 0xE2, CHR 0x9C, CHR 0x85]"
abbreviation sym_minus :: string where "sym_minus \<equiv> [CHR 0xE2, CHR 0x9E, CHR 0x96]"
abbreviation sym_page :: string where "sym_page \<equiv> [CHR 0xF0, CHR 0x9F, CHR 0x93, CHR 0x84]"
abbreviation sym_chart :: string where "sym_chart \<equiv> [CHR 0xF0, CHR 0x9F, CHR 0x93, CHR 0x8A]"
abbreviation sym_globe :: string where "sym_globe \<equiv> [CHR 0xF0, CHR 0x9F, CHR 0x8C, CHR 0x90]"
abbreviation sym_disk :: string where "sym_disk \<equiv> [CHR 0xF0, CHR 0x9F, CHR 0x92, CHR 0xBE]"
abbreviation sym_cloud :: string where
  "sym_cloud \<equiv> [CHR 0xE2, CHR 0x98, CHR 0x81, CHR 0xEF, CHR 0xB8, CHR 0x8F]"

subsection \<open>Exceptions\<close>

text \<open>
  The built-in exception classes that matter here, with Python's subclass relation:
  \<open>KeyError\<close> and \<open>IndexError\<close> derive from \<open>LookupError\<close>; \<open>ValueError\<close> and
  \<open>LookupError\<close> derive from \<open>Exception\<close> directly. An exception value carries its class
  and the message \<open>str(e)\<close> gives back.
\<close>

datatype exc_class = Exception | ValueError | LookupError | KeyError | IndexError

fun issubclass :: "exc_class \<Rightarrow> exc_class \<Rightarrow> bool" where
  "issubclass c Exception = True"
| "issubclass KeyError LookupError = True"
| "issubclass IndexError LookupError = True"
| "issubclass c d = (c = d)"

datatype exception = Exc (exc_cls: exc_class) (exc_str: string)

definition isinstance :: "exception \<Rightarrow> exc_class \<Rightarrow> bool" where
  "isinstance e c = issubclass (exc_cls e) c"

subsection \<open>Console and clock\<close>

text \<open>
  The two effects of the code are \<open>print\<close> and \<open>datetime.now()\<close>. The world holds the text
  of every \<open>print\<close> call so far, in order (without the line end \<open>print\<close> adds), and the
  number of clock readings made so far. What the clock shows at a reading, how Python
  renders a float and how it computes with floats are not code of the repository: they are
  the fields of \<open>builtins\<close>, and every definition below takes them as a parameter.
\<close>

record world =
  stdout :: "string list"
  now_calls :: nat

record builtins =
  isoformat :: "nat \<Rightarrow> string"
  strftime :: "nat \<Rightarrow> string \<Rightarrow> string"
  str_float :: "real \<Rightarrow> string"
  format_2f :: "real \<Rightarrow> string"
  float_of_int :: "int \<Rightarrow> real"
  float_add :: "real \<Rightarrow> real \<Rightarrow> real"
  float_sub :: "real \<Rightarrow> real \<Rightarrow> real"

definition print :: "string \<Rightarrow> world \<Rightarrow> world" where
  "print s w = w\<lparr>stdout := stdout w @ [s]\<rparr>"

definition datetime_now :: "world \<Rightarrow> nat \<times> world" where
  "datetime_now w = (now_calls w, w\<lparr>now_calls := Suc (now_calls w)\<rparr>)"

subsection \<open>Numbers\<close>

text \<open>
  A number in a payload is an \<open>int\<close> or a \<open>float\<close>. Python computes with \<open>int\<close>s exactly.
  A \<open>float\<close> is given here by the real number it stands for (infinities, NaN, the sign of a
  zero and \<open>int\<close>s beyond the range of a \<open>float\<close> are outside this model). As soon as one
  operand of \<open>+\<close> or \<open>-\<close> is a \<open>float\<close>, an \<open>int\<close> operand is converted to \<open>float\<close> and the
  operation is the floating-point one, whose result is rounded: conversion, addition and
  subtraction are the fields \<open>float_of_int\<close>, \<open>float_add\<close> and \<open>float_sub\<close> of \<open>builtins\<close>.
  A comparison is exact, also between an \<open>int\<close> and a \<open>float\<close>. The format \<open>.2f\<close> renders an
  \<open>int\<close> by converting it to \<open>float\<close> first.
\<close>

datatype number = PyInt int | PyFloat real

fun to_float :: "builtins \<Rightarrow> number \<Rightarrow> real" where
  "to_float py (PyInt i) = float_of_int py i"
| "to_float py (PyFloat x) = x"

fun num_value :: "number \<Rightarrow> real" where
  "num_value (PyInt i) = real_of_int i"
| "num_value (PyFloat x) = x"

fun num_add :: "builtins \<Rightarrow> number \<Rightarrow> number \<Rightarrow> number" where
  "num_add py (PyInt i) (PyInt j) = PyInt (i + j)"
| "num_add py a b = PyFloat (float_add py (to_float py a) (to_float py b))"

fun num_sub :: "builtins \<Rightarrow> number \<Rightarrow> number \<Rightarrow> number" where
  "num_sub py (PyInt i) (PyInt j) = PyInt (i - j)"
| "num_sub py a b = PyFloat (float_sub py (to_float py a) (to_float py b))"

text \<open>
  The built-in \<open>sum\<close>: it starts from the \<open>int\<close> 0 and adds the items from left to right.
  (CPython 3.12 and later compensate the rounding errors of a sum of \<open>float\<close>s; this is the
  plain sum of the versions before.)
\<close>

definition py_sum :: "builtins \<Rightarrow> number list \<Rightarrow> number" where
  "py_sum py xs = foldl (num_add py) (PyInt 0) xs"

subsection \<open>Dictionaries\<close>

text \<open>
  A \<open>dict\<close> keeps its keys in insertion order, so it is an association list with distinct
  keys: \<open>d[k] = v\<close> replaces the value in place when \<open>k\<close> is present and appends the pair
  otherwise.
\<close>

type_synonym ('k, 'v) dict = "('k \<times> 'v) list"

fun dict_setitem :: "'k \<Rightarrow> 'v \<Rightarrow> ('k, 'v) dict \<Rightarrow> ('k, 'v) dict" where
  "dict_setitem k v [] = [(k, v)]"
| "dict_setitem k v ((k', v') # d) =
     (if k' = k then (k', v) # d else (k', v') # dict_setitem k v d)"

definition dict_contains :: "'k \<Rightarrow> ('k, 'v) dict \<Rightarrow> bool" where
  "dict_contains k d = (k \<in> set (map fst d))"

definition dict_getitem :: "('k, 'v) dict \<Rightarrow> 'k \<Rightarrow> 'v option" where
  "dict_getitem d k = map_of d k"

definition dict_keys :: "('k, 'v) dict \<Rightarrow> 'k list" where
  "dict_keys d = map fst d"

section \<open>Order notifications\<close>

subsection \<open>Data classes\<close>

record Customer =
  name :: string
  email :: string
  phone :: string
  device_id :: string

record Order =
  order_id :: string
  customer :: Customer
  total :: real

record NotificationRecord =
  type :: string
  recipient :: string
  message :: string
  timestamp :: string

subsection \<open>Notifiers\<close>

text \<open>
  The abstract class \<open>Notifier\<close> is the record of its two abstract methods. A concrete
  class is a value of that record; its instances carry no state, so the class stands for
  the instance its constructor returns.
\<close>

record Notifier =
  get_type :: string
  send :: "builtins \<Rightarrow> Order \<Rightarrow> world \<Rightarrow> NotificationRecord \<times> world"

definition EmailNotifier_get_type :: string where
  "EmailNotifier_get_type = ''email''"

definition EmailNotifier_send ::
  "builtins \<Rightarrow> Order \<Rightarrow> world \<Rightarrow> NotificationRecord \<times> world" where
  "EmailNotifier_send py order w0 =
     (let msg = ''Estimado '' @ name (customer order) @ '', su pedido #'' @ order_id order
                @ '' por $'' @ str_float py (total order) @ '' ha sido confirmado.'';
          rcpt = email (customer order);
          w1 = print (sym_envelope @ '' EMAIL enviado a '' @ rcpt) w0;
          w2 = print (''   Asunto: Confirmaci'' @ o_acute @ ''n de Pedido #'' @ order_id order) w1;
          w3 = print (''   Mensaje: '' @ msg @ nl) w2;
          (now, w4) = datetime_now w3
      in (\<lparr>type = EmailNotifier_get_type, recipient = rcpt, message = msg,
           timestamp = isoformat py now\<rparr>, w4))"

definition EmailNotifier :: Notifier where
  "EmailNotifier = \<lparr>get_type = EmailNotifier_get_type, send = EmailNotifier_send\<rparr>"

definition SMSNotifier_get_type :: string where
  "SMSNotifier_get_type = ''sms''"

definition SMSNotifier_send ::
  "builtins \<Rightarrow> Order \<Rightarrow> world \<Rightarrow> NotificationRecord \<times> world" where
  "SMSNotifier_send py order w0 =
     (let msg = ''Pedido #'' @ order_id order @ '' confirmado. '' @ ''Total: $''
                @ str_float py (total order) @ ''. Gracias por su compra!'';
          rcpt = phone (customer order);
          w1 = print (sym_phone @ '' SMS enviado a '' @ rcpt) w0;
          w2 = print (''   Mensaje: '' @ msg @ nl) w1;
          (now, w3) = datetime_now w2
      in (\<lparr>type = SMSNotifier_get_type, recipient = rcpt, message = msg,
           timestamp = isoformat py now\<rparr>, w3))"

definition SMSNotifier :: Notifier where
  "SMSNotifier = \<lparr>get_type = SMSNotifier_get_type, send = SMSNotifier_send\<rparr>"

definition PushNotifier_get_type :: string where
  "PushNotifier_get_type = ''push''"

definition PushNotifier_send ::
  "builtins \<Rightarrow> Order \<Rightarrow> world \<Rightarrow> NotificationRecord \<times> world" where
  "PushNotifier_send py order w0 =
     (let msg = inverted_bang @ ''Pedido confirmado! #'' @ order_id order @ '' - $''
                @ str_float py (total order);
          rcpt = device_id (customer order);
          w1 = print (sym_bell @ '' PUSH enviada al dispositivo '' @ rcpt) w0;
          w2 = print (''   Mensaje: '' @ msg @ nl) w1;
          (now, w3) = datetime_now w2
      in (\<lparr>type = PushNotifier_get_type, recipient = rcpt, message = msg,
           timestamp = isoformat py now\<rparr>, w3))"

definition PushNotifier :: Notifier where
  "PushNotifier = \<lparr>get_type = PushNotifier_get_type, send = PushNotifier_send\<rparr>"

definition WhatsAppNotifier_get_type :: string where
  "WhatsAppNotifier_get_type = ''whatsapp''"

definition WhatsAppNotifier_send ::
  "builtins \<Rightarrow> Order \<Rightarrow> world \<Rightarrow> NotificationRecord \<times> world" where
  "WhatsAppNotifier_send py order w0 =
     (let msg = sym_cart @ '' *Pedido Confirmado*'' @ nl
                @ ''Pedido: #'' @ order_id order @ nl
                @ ''Total: $'' @ str_float py (total order) @ nl
                @ inverted_bang @ ''Gracias por tu compra, '' @ name (customer order) @ ''!'';
          rcpt = phone (customer order);
          w1 = print (sym_bubble @ '' WHATSAPP enviado a '' @ rcpt) w0;
          w2 = print (''   Mensaje: '' @ msg @ nl) w1;
          (now, w3) = datetime_now w2
      in (\<lparr>type = WhatsAppNotifier_get_type, recipient = rcpt, message = msg,
           timestamp = isoformat py now\<rparr>, w3))"

definition WhatsAppNotifier :: Notifier where
  "WhatsAppNotifier = \<lparr>get_type = WhatsAppNotifier_get_type, send = WhatsAppNotifier_send\<rparr>"

subsection \<open>The notifier factory\<close>

text \<open>
  The class attribute \<open>_notifiers\<close> is the state of \<open>NotifierFactory\<close>; each class method
  takes it, and \<open>register\<close> returns it updated. \<open>create\<close> raises \<open>ValueError\<close> for a key
  that is not in the dictionary; the subscript behind the test would raise \<open>KeyError\<close>.
\<close>

definition NotifierFactory_register ::
  "string \<Rightarrow> Notifier \<Rightarrow> (string, Notifier) dict \<Rightarrow> (string, Notifier) dict" where
  "NotifierFactory_register notifier_type notifier_class notifiers =
     dict_setitem notifier_type notifier_class notifiers"

definition NotifierFactory_create ::
  "(string, Notifier) dict \<Rightarrow> string \<Rightarrow> exception + Notifier" where
  "NotifierFactory_create notifiers notifier_type =
     (if \<not> dict_contains notifier_type notifiers
      then Inl (Exc ValueError (''Tipo de notificador desconocido: '' @ notifier_type))
      else (case dict_getitem notifiers notifier_type of
              None \<Rightarrow> Inl (Exc KeyError notifier_type)
            | Some notifier_class \<Rightarrow> Inr notifier_class))"

definition NotifierFactory_get_available_types :: "(string, Notifier) dict \<Rightarrow> string list" where
  "NotifierFactory_get_available_types notifiers = dict_keys notifiers"

text \<open>The registrations the module makes when it is loaded, in the order it makes them.\<close>

definition NotifierFactory_loaded :: "(string, Notifier) dict" where
  "NotifierFactory_loaded =
     NotifierFactory_register ''whatsapp'' WhatsAppNotifier
       (NotifierFactory_register ''push'' PushNotifier
         (NotifierFactory_register ''sms'' SMSNotifier
           (NotifierFactory_register ''email'' EmailNotifier [])))"

text \<open>A sequence of \<open>register\<close> calls, made one after the other on a given dictionary.\<close>

definition register_calls ::
  "(string \<times> Notifier) list \<Rightarrow> (string, Notifier) dict \<Rightarrow> (string, Notifier) dict" where
  "register_calls regs notifiers =
     foldl (\<lambda>d (k, c). NotifierFactory_register k c d) notifiers regs"

subsection \<open>The notification system\<close>

text \<open>
  The state of an \<open>OrderNotificationSystem\<close> is its \<open>_notification_history\<close>. A method
  returns the exception it raises (\<open>Inl\<close>) or its value (\<open>Inr\<close>), with the history and the
  world as they are at that moment.
\<close>

definition print_order_header :: "builtins \<Rightarrow> Order \<Rightarrow> world \<Rightarrow> world" where
  "print_order_header py order w0 =
     (let w1 = print (nl @ replicate 50 CHR ''='') w0;
          w2 = print (''Procesando pedido #'' @ order_id order) w1;
          w3 = print (''Cliente: '' @ name (customer order)) w2;
          w4 = print (''Total: $'' @ str_float py (total order)) w3;
          w5 = print (replicate 50 CHR ''='' @ nl) w4
      in w5)"

fun process_order_loop ::
  "builtins \<Rightarrow> (string, Notifier) dict \<Rightarrow> Order \<Rightarrow> string list \<Rightarrow>
   NotificationRecord list \<times> world \<Rightarrow> (exception + unit) \<times> NotificationRecord list \<times> world" where
  "process_order_loop py notifiers order [] (history, w) = (Inr (), history, w)"
| "process_order_loop py notifiers order (notif_type # rest) (history, w) =
     (case NotifierFactory_create notifiers notif_type of
        Inr notifier \<Rightarrow>
          (let (record, w') = send notifier py order w
           in process_order_loop py notifiers order rest (history @ [record], w'))
      | Inl e \<Rightarrow>
          if isinstance e ValueError
          then process_order_loop py notifiers order rest
                 (history, print (sym_warning @ ''  Error: '' @ exc_str e @ nl) w)
          else (Inl e, history, w))"

definition process_order ::
  "builtins \<Rightarrow> (string, Notifier) dict \<Rightarrow> Order \<Rightarrow> string list \<Rightarrow>
   NotificationRecord list \<times> world \<Rightarrow> (exception + unit) \<times> NotificationRecord list \<times> world" where
  "process_order py notifiers order notification_types s =
     process_order_loop py notifiers order notification_types
       (fst s, print_order_header py order (snd s))"

subsection \<open>The notification facade\<close>

text \<open>
  The facade owns one notification system, so its state is that system's history. The
  dictionary it returns is the record \<open>summary\<close>.
\<close>

record summary =
  status :: string
  summary_order_id :: string
  channels_notified :: "string list"
  total_notifications :: nat

definition send_order_notifications ::
  "builtins \<Rightarrow> (string, Notifier) dict \<Rightarrow> string \<Rightarrow> string \<Rightarrow> string \<Rightarrow> string \<Rightarrow> string \<Rightarrow>
   real \<Rightarrow> string list \<Rightarrow> NotificationRecord list \<times> world \<Rightarrow>
   (exception + summary) \<times> NotificationRecord list \<times> world" where
  "send_order_notifications py notifiers oid customer_name customer_email customer_phone
     dev_id tot channels s =
     (let cust = \<lparr>name = customer_name, email = customer_email, phone = customer_phone,
                  device_id = dev_id\<rparr>;
          order = \<lparr>order_id = oid, customer = cust, total = tot\<rparr>
      in (case process_order py notifiers order channels s of
            (Inl e, s') \<Rightarrow> (Inl e, s')
          | (Inr u, s') \<Rightarrow>
              (Inr \<lparr>status = ''success'', summary_order_id = oid, channels_notified = channels,
                    total_notifications = length channels\<rparr>, s')))"

definition send_quick_email ::
  "builtins \<Rightarrow> (string, Notifier) dict \<Rightarrow> string \<Rightarrow> string \<Rightarrow> string \<Rightarrow> real \<Rightarrow>
   NotificationRecord list \<times> world \<Rightarrow> (exception + summary) \<times> NotificationRecord list \<times> world" where
  "send_quick_email py notifiers oid nm eml tot s =
     send_order_notifications py notifiers oid nm eml [] [] tot [''email''] s"

definition send_all_channels ::
  "builtins \<Rightarrow> (string, Notifier) dict \<Rightarrow> string \<Rightarrow> string \<Rightarrow> string \<Rightarrow> string \<Rightarrow> string \<Rightarrow>
   real \<Rightarrow> NotificationRecord list \<times> world \<Rightarrow>
   (exception + summary) \<times> NotificationRecord list \<times> world" where
  "send_all_channels py notifiers oid nm eml phn dev_id tot s =
     (let all_channels = NotifierFactory_get_available_types notifiers
      in send_order_notifications py notifiers oid nm eml phn dev_id tot all_channels s)"

section \<open>Report generation\<close>

subsection \<open>Data\<close>

record ReportRecord =
  report_type :: string
  output_format :: string
  delivery_method :: string
  timestamp' :: string

text \<open>
  The payload \<open>data\<close> is a dictionary that the generators read through \<open>get\<close> at six
  keys. It is the record of these six entries, each absent or present; a present entry has
  the shape its generator reads (a list of sale, item or action dictionaries, a string, a
  number), as callers are trusted to supply it. An amount, an income and an expense are
  numbers as above, \<open>int\<close> or \<open>float\<close>; a quantity is an \<open>int\<close>.
\<close>

record sale =
  sale_product :: string
  sale_amount :: number

record item =
  item_name :: string
  item_category :: string
  item_quantity :: int

record action =
  action_timestamp :: string
  action_user :: string
  action_action :: string

record data =
  sales :: "sale list option"
  period :: "string option"
  items :: "item list option"
  income :: "number option"
  expenses :: "number option"
  actions :: "action list option"

definition get :: "'a option \<Rightarrow> 'a \<Rightarrow> 'a" where
  "get entry dflt = (case entry of None \<Rightarrow> dflt | Some v \<Rightarrow> v)"

text \<open>\<open>str\<close> of an integer, as an f-string renders it: decimal digits, with a sign if negative.\<close>

function str_nat :: "nat \<Rightarrow> string" where
  "str_nat n =
     (if n < 10 then [''0123456789'' ! n]
      else str_nat (n div 10) @ [''0123456789'' ! (n mod 10)])"
  by pat_completeness auto
termination
  by (relation "measure id") auto

definition str_int :: "int \<Rightarrow> string" where
  "str_int i = (if i < 0 then ''-'' @ str_nat (nat (- i)) else str_nat (nat i))"

subsection \<open>Report generators\<close>

text \<open>
  \<open>ReportGenerator\<close> is the record of its three abstract methods. \<open>generate\<close>,
  \<open>_build_header\<close> and \<open>_build_footer\<close> are methods of the base class that no subclass
  overrides, so they are functions of this record.
\<close>

record ReportGenerator =
  get_type' :: string
  get_title :: string
  build_body :: "builtins \<Rightarrow> data \<Rightarrow> string"

definition build_header :: "builtins \<Rightarrow> ReportGenerator \<Rightarrow> world \<Rightarrow> string \<times> world" where
  "build_header py self w0 =
     (let (now, w1) = datetime_now w0;
          ts = strftime py now ''%Y-%m-%d %H:%M:%S'';
          header = replicate 60 CHR ''='' @ nl;
          header = header @ ''           '' @ get_title self @ nl;
          header = header @ replicate 60 CHR ''='' @ nl;
          header = header @ ''Fecha de generaci'' @ o_acute @ ''n: '' @ ts @ nl @ nl
      in (header, w1))"

definition build_footer :: string where
  "build_footer = nl @ replicate 60 CHR ''='' @ nl"

definition generate :: "builtins \<Rightarrow> ReportGenerator \<Rightarrow> data \<Rightarrow> world \<Rightarrow> string \<times> world" where
  "generate py self d w0 =
     (let (content, w1) = build_header py self w0;
          content = content @ build_body self py d;
          content = content @ build_footer
      in (content, w1))"

definition SalesReportGenerator_build_body :: "builtins \<Rightarrow> data \<Rightarrow> string" where
  "SalesReportGenerator_build_body py d =
     (let sls = get (sales d) [];
          prd = get (period d) ''No especificado'';
          total_sales = py_sum py (map sale_amount sls);
          body = ''Total de ventas: $'' @ format_2f py (to_float py total_sales) @ nl;
          body = body @ ''N'' @ u_acute @ ''mero de transacciones: ''
                 @ str_int (int (length sls)) @ nl;
          body = body @ ''Periodo: '' @ prd @ nl @ nl;
          body = body @ ''Detalle de ventas:'' @ nl;
          body = body @ replicate 60 CHR ''-'' @ nl
      in foldl (\<lambda>body s. body @ ''  '' @ bullet @ '' Producto: '' @ sale_product s @ '' - $''
                           @ format_2f py (to_float py (sale_amount s)) @ nl) body sls)"

definition SalesReportGenerator :: ReportGenerator where
  "SalesReportGenerator =
     \<lparr>get_type' = ''sales'', get_title = ''REPORTE DE VENTAS'',
      build_body = SalesReportGenerator_build_body\<rparr>"

definition InventoryReportGenerator_build_body :: "builtins \<Rightarrow> data \<Rightarrow> string" where
  "InventoryReportGenerator_build_body py d =
     (let its = get (items d) [];
          total_items = sum_list (map item_quantity its);
          categories = card (set (map item_category its));
          body = ''Total de productos: '' @ str_int total_items @ nl;
          body = body @ ''Categor'' @ i_acute @ ''as: '' @ str_int (int categories) @ nl @ nl;
          body = body @ ''Inventario actual:'' @ nl;
          body = body @ replicate 60 CHR ''-'' @ nl
      in foldl (\<lambda>body i. body @ ''  '' @ bullet @ '' '' @ item_name i @ '' ('' @ item_category i
                           @ ''): '' @ str_int (item_quantity i) @ '' unidades'' @ nl) body its)"

definition InventoryReportGenerator :: ReportGenerator where
  "InventoryReportGenerator =
     \<lparr>get_type' = ''inventory'', get_title = ''REPORTE DE INVENTARIO'',
      build_body = InventoryReportGenerator_build_body\<rparr>"

definition FinancialReportGenerator_build_body :: "builtins \<Rightarrow> data \<Rightarrow> string" where
  "FinancialReportGenerator_build_body py d =
     (let inc = get (income d) (PyInt 0);
          exps = get (expenses d) (PyInt 0);
          balance = num_sub py inc exps;
          body = ''Ingresos: $'' @ format_2f py (to_float py inc) @ nl;
          body = body @ ''Gastos: $'' @ format_2f py (to_float py exps) @ nl;
          body = body @ ''Balance: $'' @ format_2f py (to_float py balance) @ nl
      in if num_value balance > 0 then body @ nl @ sym_check @ '' Estado: POSITIVO'' @ nl
         else if num_value balance < 0
              then body @ nl @ sym_warning @ ''  Estado: NEGATIVO'' @ nl
         else body @ nl @ sym_minus @ '' Estado: NEUTRO'' @ nl)"

definition FinancialReportGenerator :: ReportGenerator where
  "FinancialReportGenerator =
     \<lparr>get_type' = ''financial'', get_title = ''REPORTE FINANCIERO'',
      build_body = FinancialReportGenerator_build_body\<rparr>"

definition AuditReportGenerator_build_body :: "builtins \<Rightarrow> data \<Rightarrow> string" where
  "AuditReportGenerator_build_body py d =
     (let acts = get (actions d) [];
          body = ''Total de acciones auditadas: '' @ str_int (int (length acts)) @ nl @ nl;
          body = body @ ''Registro de actividades:'' @ nl;
          body = body @ replicate 60 CHR ''-'' @ nl
      in foldl (\<lambda>body a. body @ ''  '' @ bullet @ '' ['' @ action_timestamp a @ ''] ''
                           @ action_user a @ '': '' @ action_action a @ nl) body acts)"

definition AuditReportGenerator :: ReportGenerator where
  "AuditReportGenerator =
     \<lparr>get_type' = ''audit'', get_title = ''REPORTE DE AUDITOR'' @ I_acute @ ''A'',
      build_body = AuditReportGenerator_build_body\<rparr>"

subsection \<open>Output formatters\<close>

record OutputFormatter =
  get_format_type :: string
  get_file_extension :: string
  format :: "string \<Rightarrow> world \<Rightarrow> string \<times> world"

definition PDFFormatter_format :: "string \<Rightarrow> world \<Rightarrow> string \<times> world" where
  "PDFFormatter_format content w =
     (let w1 = print (sym_page @ '' Generando reporte en formato PDF...'') w
      in (''[PDF FORMAT]'' @ nl @ content @ nl @ ''[END PDF]'', w1))"

definition PDFFormatter :: OutputFormatter where
  "PDFFormatter =
     \<lparr>get_format_type = ''pdf'', get_file_extension = ''pdf'', format = PDFFormatter_format\<rparr>"

definition ExcelFormatter_format :: "string \<Rightarrow> world \<Rightarrow> string \<times> world" where
  "ExcelFormatter_format content w =
     (let w1 = print (sym_chart @ '' Generando reporte en formato Excel...'') w
      in (''[EXCEL FORMAT]'' @ nl @ content @ nl @ ''[END EXCEL]'', w1))"

definition ExcelFormatter :: OutputFormatter where
  "ExcelFormatter =
     \<lparr>get_format_type = ''excel'', get_file_extension = ''xlsx'',
      format = ExcelFormatter_format\<rparr>"

definition HTMLFormatter_format :: "string \<Rightarrow> world \<Rightarrow> string \<times> world" where
  "HTMLFormatter_format content w =
     (let w1 = print (sym_globe @ '' Generando reporte en formato HTML...'') w
      in (''<html><body><pre>'' @ content @ ''</pre></body></html>'', w1))"

definition HTMLFormatter :: OutputFormatter where
  "HTMLFormatter =
     \<lparr>get_format_type = ''html'', get_file_extension = ''html'', format = HTMLFormatter_format\<rparr>"

subsection \<open>Delivery methods\<close>

text \<open>
  \<open>EmailDelivery\<close> and \<open>CloudDelivery\<close> take their destination at construction, with a
  default; the factory constructs them without an argument.
\<close>

record DeliveryMethod =
  get_method_type :: string
  deliver :: "builtins \<Rightarrow> string \<Rightarrow> string \<Rightarrow> string \<Rightarrow> world \<Rightarrow> world"

definition EmailDelivery_deliver ::
  "string \<Rightarrow> builtins \<Rightarrow> string \<Rightarrow> string \<Rightarrow> string \<Rightarrow> world \<Rightarrow> world" where
  "EmailDelivery_deliver rcpt py content rtype file_extension w0 =
     (let w1 = print (sym_envelope @ '' Enviando reporte por email...'') w0;
          w2 = print (''   Destinatario: '' @ rcpt) w1;
          w3 = print (''   Adjunto: report_'' @ rtype @ ''.'' @ file_extension) w2
      in w3)"

definition EmailDelivery :: "string \<Rightarrow> DeliveryMethod" where
  "EmailDelivery rcpt = \<lparr>get_method_type = ''email'', deliver = EmailDelivery_deliver rcpt\<rparr>"

definition DownloadDelivery_deliver ::
  "builtins \<Rightarrow> string \<Rightarrow> string \<Rightarrow> string \<Rightarrow> world \<Rightarrow> world" where
  "DownloadDelivery_deliver py content rtype file_extension w0 =
     (let (now, w1) = datetime_now w0;
          ts = strftime py now ''%Y%m%d_%H%M%S'';
          filename = ''report_'' @ rtype @ ''_'' @ ts @ ''.'' @ file_extension;
          w2 = print (sym_disk @ '' Reporte disponible para descarga: '' @ filename) w1
      in w2)"

definition DownloadDelivery :: DeliveryMethod where
  "DownloadDelivery = \<lparr>get_method_type = ''download'', deliver = DownloadDelivery_deliver\<rparr>"

definition CloudDelivery_deliver ::
  "string \<Rightarrow> builtins \<Rightarrow> string \<Rightarrow> string \<Rightarrow> string \<Rightarrow> world \<Rightarrow> world" where
  "CloudDelivery_deliver cloud_url py content rtype file_extension w0 =
     (let w1 = print (sym_cloud @ ''  Subiendo reporte a la nube...'') w0;
          w2 = print (''   URL: '' @ cloud_url @ ''/'' @ rtype @ ''.'' @ file_extension) w1
      in w2)"

definition CloudDelivery :: "string \<Rightarrow> DeliveryMethod" where
  "CloudDelivery cloud_url =
     \<lparr>get_method_type = ''cloud'', deliver = CloudDelivery_deliver cloud_url\<rparr>"

subsection \<open>The three report factories\<close>

definition ReportGeneratorFactory_register ::
  "string \<Rightarrow> ReportGenerator \<Rightarrow> (string, ReportGenerator) dict \<Rightarrow> (string, ReportGenerator) dict"
  where
  "ReportGeneratorFactory_register rtype generator_class generators =
     dict_setitem rtype generator_class generators"

definition ReportGeneratorFactory_create ::
  "(string, ReportGenerator) dict \<Rightarrow> string \<Rightarrow> exception + ReportGenerator" where
  "ReportGeneratorFactory_create generators rtype =
     (if \<not> dict_contains rtype generators
      then Inl (Exc ValueError (''Tipo de reporte desconocido: '' @ rtype))
      else (case dict_getitem generators rtype of
              None \<Rightarrow> Inl (Exc KeyError rtype)
            | Some generator_class \<Rightarrow> Inr generator_class))"

definition FormatterFactory_register ::
  "string \<Rightarrow> OutputFormatter \<Rightarrow> (string, OutputFormatter) dict \<Rightarrow> (string, OutputFormatter) dict"
  where
  "FormatterFactory_register format_type formatter_class formatters =
     dict_setitem format_type formatter_class formatters"

definition FormatterFactory_create ::
  "(string, OutputFormatter) dict \<Rightarrow> string \<Rightarrow> exception + OutputFormatter" where
  "FormatterFactory_create formatters format_type =
     (if \<not> dict_contains format_type formatters
      then Inl (Exc ValueError (''Formato desconocido: '' @ format_type))
      else (case dict_getitem formatters format_type of
              None \<Rightarrow> Inl (Exc KeyError format_type)
            | Some formatter_class \<Rightarrow> Inr formatter_class))"

definition DeliveryFactory_register ::
  "string \<Rightarrow> DeliveryMethod \<Rightarrow> (string, DeliveryMethod) dict \<Rightarrow> (string, DeliveryMethod) dict"
  where
  "DeliveryFactory_register method_type method_class methods =
     dict_setitem method_type method_class methods"

definition DeliveryFactory_create ::
  "(string, DeliveryMethod) dict \<Rightarrow> string \<Rightarrow> exception + DeliveryMethod" where
  "DeliveryFactory_create methods method_type =
     (if \<not> dict_contains method_type methods
      then Inl (Exc ValueError (''M'' @ e_acute @ ''todo de entrega desconocido: '' @ method_type))
      else (case dict_getitem methods method_type of
              None \<Rightarrow> Inl (Exc KeyError method_type)
            | Some method_class \<Rightarrow> Inr method_class))"

text \<open>The registrations the module makes when it is loaded, in the order it makes them.\<close>

definition ReportGeneratorFactory_loaded :: "(string, ReportGenerator) dict" where
  "ReportGeneratorFactory_loaded =
     ReportGeneratorFactory_register ''audit'' AuditReportGenerator
       (ReportGeneratorFactory_register ''financial'' FinancialReportGenerator
         (ReportGeneratorFactory_register ''inventory'' InventoryReportGenerator
           (ReportGeneratorFactory_register ''sales'' SalesReportGenerator [])))"

definition FormatterFactory_loaded :: "(string, OutputFormatter) dict" where
  "FormatterFactory_loaded =
     FormatterFactory_register ''html'' HTMLFormatter
       (FormatterFactory_register ''excel'' ExcelFormatter
         (FormatterFactory_register ''pdf'' PDFFormatter []))"

definition DeliveryFactory_loaded :: "(string, DeliveryMethod) dict" where
  "DeliveryFactory_loaded =
     DeliveryFactory_register ''cloud'' (CloudDelivery ''https://cloud.company.com/reports'')
       (DeliveryFactory_register ''download'' DownloadDelivery
         (DeliveryFactory_register ''email'' (EmailDelivery ''admin@company.com'') []))"

subsection \<open>The report system\<close>

text \<open>
  The state of a \<open>ReportSystem\<close> is its list \<open>_reports_generated\<close>. The three factories
  are read, never written, by \<open>generate_report\<close>.
\<close>

definition generate_report ::
  "builtins \<Rightarrow> (string, ReportGenerator) dict \<Rightarrow> (string, OutputFormatter) dict \<Rightarrow>
   (string, DeliveryMethod) dict \<Rightarrow> string \<Rightarrow> data \<Rightarrow> string \<Rightarrow> string \<Rightarrow>
   ReportRecord list \<times> world \<Rightarrow> (exception + string) \<times> ReportRecord list \<times> world" where
  "generate_report py generators formatters methods rtype d oformat dmethod s =
     (case ReportGeneratorFactory_create generators rtype of
        Inl e \<Rightarrow> (Inl e, s)
      | Inr generator \<Rightarrow>
     (case FormatterFactory_create formatters oformat of
        Inl e \<Rightarrow> (Inl e, s)
      | Inr formatter \<Rightarrow>
     (case DeliveryFactory_create methods dmethod of
        Inl e \<Rightarrow> (Inl e, s)
      | Inr delivery \<Rightarrow>
          (let (content, w1) = generate py generator d (snd s);
               (formatted_content, w2) = format formatter content w1;
               w3 = deliver delivery py formatted_content rtype (get_file_extension formatter) w2;
               (now, w4) = datetime_now w3;
               reports = fst s @ [\<lparr>report_type = rtype, output_format = oformat,
                                    delivery_method = dmethod,
                                    timestamp' = strftime py now ''%Y-%m-%d %H:%M:%S''\<rparr>];
               w5 = print (nl @ sym_check @ '' Reporte generado exitosamente'' @ nl) w4;
               w6 = print formatted_content w5;
               w7 = print (nl @ replicate 60 CHR ''='' @ nl) w6
           in (Inr formatted_content, reports, w7)))))"

section \<open>Sample values\<close>

text \<open>
  One runtime to evaluate examples with. The \<open>n\<close>-th clock reading shows the number \<open>n\<close>,
  and a float is rendered as Python renders a whole number. The float arithmetic is that of
  a double on the values the examples use: a result of magnitude \<open>2^53\<close> or more is rounded
  to the nearest number with a significand of 53 bits, a tie going to the even significand;
  a smaller result is kept as it is, which is what a double does with a whole number.
\<close>

function bit_length :: "nat \<Rightarrow> nat" where
  "bit_length n = (if n = 0 then 0 else 1 + bit_length (n div 2))"
  by pat_completeness auto
termination
  by (relation "measure id") auto

definition round_half_even :: "real \<Rightarrow> int" where
  "round_half_even q =
     (let f = \<lfloor>q\<rfloor>; r = q - of_int f
      in if r < 1 / 2 then f else if 1 / 2 < r then f + 1 else if even f then f else f + 1)"

definition round_double :: "real \<Rightarrow> real" where
  "round_double x =
     (if \<bar>x\<bar> < 9007199254740992 then x
      else (let k = bit_length (nat \<lfloor>\<bar>x\<bar>\<rfloor>) - 53
            in 2 ^ k * of_int (round_half_even (x / 2 ^ k))))"

definition example_builtins :: builtins where
  "example_builtins =
     \<lparr>isoformat = (\<lambda>n. ''2024-01-15T10:30:0'' @ str_nat n),
      strftime = (\<lambda>n fmt. fmt @ '' at '' @ str_nat n),
      str_float = (\<lambda>x. str_int \<lfloor>x\<rfloor> @ ''.0''),
      format_2f = (\<lambda>x. str_int \<lfloor>x\<rfloor> @ ''.00''),
      float_of_int = (\<lambda>i. round_double (of_int i)),
      float_add = (\<lambda>x y. round_double (x + y)),
      float_sub = (\<lambda>x y. round_double (x - y))\<rparr>"

definition example_order :: Order where
  "example_order =
     \<lparr>order_id = ''ORD-002'',
      customer = \<lparr>name = ''Carlos Ruiz'', email = ''carlos.ruiz@email.com'',
                  phone = ''+34-600-789-012'', device_id = ''DEVICE-XYZ-789''\<rparr>,
      total = 75\<rparr>"

definition example_notifiers :: "(string, Notifier) dict" where
  "example_notifiers =
     NotifierFactory_register ''sms'' SMSNotifier
       (NotifierFactory_register ''email'' EmailNotifier [])"

text \<open>A notifier that the module does not have, to register under a new key.\<close>

definition example_TelegramNotifier :: Notifier where
  "example_TelegramNotifier =
     \<lparr>get_type = ''telegram'',
      send = (\<lambda>py order w0.
        let msg = ''Pedido #'' @ order_id order @ '' confirmado.'';
            rcpt = phone (customer order);
            w1 = print (''TELEGRAM enviado a '' @ rcpt) w0;
            (now, w2) = datetime_now w1
        in (\<lparr>type = ''telegram'', recipient = rcpt, message = msg,
             timestamp = isoformat py now\<rparr>, w2))\<rparr>"

text \<open>The payload of the module's own financial example.\<close>

definition example_financial_data :: data where
  "example_financial_data =
     \<lparr>sales = None, period = None, items = None, income = Some (PyFloat 75000),
      expenses = Some (PyFloat 45000), actions = None\<rparr>"



section \<open>Dictionaries and factories\<close>

lemma dict_keys_setitem:
  "dict_keys (dict_setitem k v d) =
     (if k \<in> set (dict_keys d) then dict_keys d else dict_keys d @ [k])"
  by (induction d) (force simp: dict_keys_def)+

lemma map_of_setitem: "map_of (dict_setitem k v d) = (map_of d)(k \<mapsto> v)"
  by (induction d) (auto simp: fun_eq_iff)

lemma contains_iff_map_of: "dict_contains k d \<longleftrightarrow> map_of d k \<noteq> None"
  by (simp add: dict_contains_def map_of_eq_None_iff)

text \<open>The membership test followed by the subscript is one lookup.\<close>

lemma test_then_subscript:
  "(if \<not> dict_contains k d then a else (case dict_getitem d k of None \<Rightarrow> b | Some c \<Rightarrow> f c)) =
     (case map_of d k of None \<Rightarrow> a | Some c \<Rightarrow> f c)"
  by (cases "map_of d k") (simp_all add: contains_iff_map_of dict_getitem_def)

lemma create_eq:
  "NotifierFactory_create d k =
     (case map_of d k of
        None \<Rightarrow> Inl (Exc ValueError (''Tipo de notificador desconocido: '' @ k))
      | Some c \<Rightarrow> Inr c)"
  unfolding NotifierFactory_create_def by (rule test_then_subscript)

lemmas notifier_defs =
  EmailNotifier_def EmailNotifier_send_def EmailNotifier_get_type_def
  SMSNotifier_def SMSNotifier_send_def SMSNotifier_get_type_def
  PushNotifier_def PushNotifier_send_def PushNotifier_get_type_def
  WhatsAppNotifier_def WhatsAppNotifier_send_def WhatsAppNotifier_get_type_def

section \<open>The notification batch\<close>

lemma loop_append:
  "process_order_loop py ns ord (ks1 @ ks2) s =
     (case process_order_loop py ns ord ks1 s of
        (Inl e, s') \<Rightarrow> (Inl e, s')
      | (Inr u, s') \<Rightarrow> process_order_loop py ns ord ks2 s')"
proof (induction py ns ord ks1 s rule: process_order_loop.induct)
  case (1 py ns ord h w)
  then show ?case by simp
next
  case (2 py ns ord k rest h w)
  then show ?case
    by (auto split: sum.splits prod.splits)
qed

lemma process_order_snoc:
  "process_order py ns ord (ks @ [k]) s =
     (case process_order py ns ord ks s of
        (Inl e, s') \<Rightarrow> (Inl e, s')
      | (Inr u, s') \<Rightarrow> process_order_loop py ns ord [k] s')"
  by (simp add: process_order_def loop_append)

text \<open>
  The loop never raises: it returns with the history extended by one record for each key of
  the list that is registered, in the order of the list.
\<close>

lemma loop_ok:
  "\<exists>recs w'. process_order_loop py ns ord ks (h, w) = (Inr (), h @ recs, w') \<and>
      list_all2 (\<lambda>r k. \<exists>n w1. NotifierFactory_create ns k = Inr n \<and> r = fst (send n py ord w1))
        recs (filter (\<lambda>k. dict_contains k ns) ks)"
proof (induction ks arbitrary: h w)
  case Nil
  then show ?case by simp
next
  case (Cons k ks)
  let ?sent = "\<lambda>r k. \<exists>n w1. NotifierFactory_create ns k = Inr n \<and> r = fst (send n py ord w1)"
  show ?case
  proof (cases "map_of ns k")
    case None
    then have nc: "\<not> dict_contains k ns" by (simp add: contains_iff_map_of)
    let ?w = "print (sym_warning @ ''  Error: '' @ ''Tipo de notificador desconocido: '' @ k @ nl) w"
    from Cons.IH[of h ?w]
    obtain recs w' where
      "process_order_loop py ns ord ks (h, ?w) = (Inr (), h @ recs, w')"
      "list_all2 ?sent recs (filter (\<lambda>k. dict_contains k ns) ks)"
      by blast
    then show ?thesis using None nc
      by (simp add: create_eq isinstance_def)
  next
    case (Some n)
    then have c: "dict_contains k ns" by (simp add: contains_iff_map_of)
    obtain r w1 where s: "send n py ord w = (r, w1)" by (cases "send n py ord w")
    from Cons.IH[of "h @ [r]" w1]
    obtain recs w' where
      l: "process_order_loop py ns ord ks (h @ [r], w1) = (Inr (), (h @ [r]) @ recs, w')"
      and a: "list_all2 ?sent recs (filter (\<lambda>k. dict_contains k ns) ks)"
      by blast
    have sb: "?sent r k"
      using Some s by (auto simp: create_eq intro!: exI[of _ w])
    have "process_order_loop py ns ord (k # ks) (h, w) = (Inr (), h @ (r # recs), w')"
      using Some s l by (simp add: create_eq)
    moreover have "list_all2 ?sent (r # recs) (filter (\<lambda>k. dict_contains k ns) (k # ks))"
      using a sb c by simp
    ultimately show ?thesis by blast
  qed
qed

text \<open>
  C1. \<open>process_order\<close> never raises, whatever the order and the list of keys. It leaves the
  history extended by one record per registered key of the list, in list order and with
  repetitions: the records are in one-to-one correspondence with the registered keys of the
  list, each returned by \<open>send\<close> of the notifier registered under its key. Key by key:
  after any keys \<open>ks\<close>, an unregistered key \<open>k\<close> adds nothing to the history and prints the
  error report that names \<open>k\<close>, and a registered key appends the record its notifier
  returns, after those of \<open>ks\<close>; in both cases the batch goes on.
\<close>

theorem process_order_batch:
  "(\<exists>records w'.
      process_order py notifiers order keys (history, w) = (Inr (), history @ records, w') \<and>
      list_all2 (\<lambda>r k. \<exists>n w1. NotifierFactory_create notifiers k = Inr n \<and> r = fst (send n py order w1))
        records (filter (\<lambda>k. dict_contains k notifiers) keys))
   \<and> (\<not> dict_contains k notifiers \<longrightarrow>
        (\<exists>h1 w1. process_order py notifiers order ks (history, w) = (Inr (), h1, w1) \<and>
           process_order py notifiers order (ks @ [k]) (history, w) =
             (Inr (), h1,
              print (sym_warning @ ''  Error: Tipo de notificador desconocido: '' @ k @ nl) w1)))
   \<and> (\<forall>n. dict_getitem notifiers k = Some n \<longrightarrow>
        (\<exists>h1 w1. process_order py notifiers order ks (history, w) = (Inr (), h1, w1) \<and>
           process_order py notifiers order (ks @ [k]) (history, w) =
             (Inr (), h1 @ [fst (send n py order w1)], snd (send n py order w1))))"
proof (intro conjI impI allI)
  from loop_ok[of py notifiers order keys history "print_order_header py order w"]
  show "\<exists>records w'.
      process_order py notifiers order keys (history, w) = (Inr (), history @ records, w') \<and>
      list_all2 (\<lambda>r k. \<exists>n w1. NotifierFactory_create notifiers k = Inr n \<and> r = fst (send n py order w1))
        records (filter (\<lambda>k. dict_contains k notifiers) keys)"
    by (simp add: process_order_def)
next
  assume nc: "\<not> dict_contains k notifiers"
  from loop_ok[of py notifiers order ks history "print_order_header py order w"]
  obtain recs w1 where
    p: "process_order py notifiers order ks (history, w) = (Inr (), history @ recs, w1)"
    by (auto simp: process_order_def)
  from nc have "map_of notifiers k = None" by (simp add: contains_iff_map_of)
  then have "process_order py notifiers order (ks @ [k]) (history, w) =
      (Inr (), history @ recs,
       print (sym_warning @ ''  Error: Tipo de notificador desconocido: '' @ k @ nl) w1)"
    by (simp add: process_order_snoc p create_eq isinstance_def)
  with p show "\<exists>h1 w1. process_order py notifiers order ks (history, w) = (Inr (), h1, w1) \<and>
           process_order py notifiers order (ks @ [k]) (history, w) =
             (Inr (), h1,
              print (sym_warning @ ''  Error: Tipo de notificador desconocido: '' @ k @ nl) w1)"
    by blast
next
  fix n
  assume g: "dict_getitem notifiers k = Some n"
  from loop_ok[of py notifiers order ks history "print_order_header py order w"]
  obtain recs w1 where
    p: "process_order py notifiers order ks (history, w) = (Inr (), history @ recs, w1)"
    by (auto simp: process_order_def)
  from g have "map_of notifiers k = Some n" by (simp add: dict_getitem_def)
  then have "process_order py notifiers order (ks @ [k]) (history, w) =
      (Inr (), (history @ recs) @ [fst (send n py order w1)], snd (send n py order w1))"
    by (simp add: process_order_snoc p create_eq split: prod.splits)
  with p show "\<exists>h1 w1. process_order py notifiers order ks (history, w) = (Inr (), h1, w1) \<and>
           process_order py notifiers order (ks @ [k]) (history, w) =
             (Inr (), h1 @ [fst (send n py order w1)], snd (send n py order w1))"
    by blast
qed

text \<open>
  With only \<open>email\<close> and \<open>sms\<close> registered, the batch \<open>email, bogus, sms\<close> on an empty
  history returns with two records, email then sms, and has printed the report for
  \<open>bogus\<close>.
\<close>

theorem process_order_batch_witness:
  "\<not> dict_contains ''bogus'' example_notifiers \<and>
   dict_getitem example_notifiers ''sms'' = Some SMSNotifier \<and>
   (\<exists>r1 r2 w'.
      process_order example_builtins example_notifiers example_order
        [''email'', ''bogus'', ''sms''] ([], \<lparr>stdout = [], now_calls = 0\<rparr>) = (Inr (), [r1, r2], w') \<and>
      type r1 = ''email'' \<and> recipient r1 = ''carlos.ruiz@email.com'' \<and>
      type r2 = ''sms'' \<and> recipient r2 = ''+34-600-789-012'' \<and>
      sym_warning @ ''  Error: Tipo de notificador desconocido: bogus'' @ nl \<in> set (stdout w'))"
proof -
  let ?py = example_builtins and ?ns = example_notifiers and ?o = example_order
  let ?s = "([] :: NotificationRecord list, \<lparr>stdout = [], now_calls = 0\<rparr>)"
  have nc: "\<not> dict_contains ''bogus'' ?ns"
    by (simp add: example_notifiers_def NotifierFactory_register_def dict_contains_def)
  have gs: "dict_getitem ?ns ''sms'' = Some SMSNotifier"
    by (simp add: example_notifiers_def NotifierFactory_register_def dict_getitem_def)
  have ge: "dict_getitem ?ns ''email'' = Some EmailNotifier"
    by (simp add: example_notifiers_def NotifierFactory_register_def dict_getitem_def)
  note T = process_order_batch[of ?py ?ns ?o _ "[]" "\<lparr>stdout = [], now_calls = 0\<rparr>"]
  from T[of "[]" "''email''" "[]"] ge
  obtain h1 w1 where
    p0: "process_order ?py ?ns ?o [] ?s = (Inr (), h1, w1)" and
    p1: "process_order ?py ?ns ?o [''email''] ?s =
           (Inr (), h1 @ [fst (send EmailNotifier ?py ?o w1)], snd (send EmailNotifier ?py ?o w1))"
    by auto
  have h1: "h1 = []" using p0 by (simp add: process_order_def)
  let ?w2 = "print (sym_warning @ ''  Error: Tipo de notificador desconocido: bogus'' @ nl)
              (snd (send EmailNotifier ?py ?o w1))"
  from T[of "[]" "''bogus''" "[''email'']"] nc p1
  have p2: "process_order ?py ?ns ?o [''email'', ''bogus''] ?s =
           (Inr (), h1 @ [fst (send EmailNotifier ?py ?o w1)], ?w2)"
    by auto
  from T[of "[]" "''sms''" "[''email'', ''bogus'']"] gs p2
  have p3: "process_order ?py ?ns ?o [''email'', ''bogus'', ''sms''] ?s =
           (Inr (), [fst (send EmailNotifier ?py ?o w1), fst (send SMSNotifier ?py ?o ?w2)],
            snd (send SMSNotifier ?py ?o ?w2))"
    by (auto simp: h1)
  have "type (fst (send EmailNotifier ?py ?o w1)) = ''email''"
       "recipient (fst (send EmailNotifier ?py ?o w1)) = ''carlos.ruiz@email.com''"
       "type (fst (send SMSNotifier ?py ?o ?w2)) = ''sms''"
       "recipient (fst (send SMSNotifier ?py ?o ?w2)) = ''+34-600-789-012''"
    by (simp_all add: notifier_defs Let_def example_order_def datetime_now_def print_def)
  moreover have "sym_warning @ ''  Error: Tipo de notificador desconocido: bogus'' @ nl
      \<in> set (stdout (snd (send SMSNotifier ?py ?o ?w2)))"
    by (simp add: notifier_defs Let_def datetime_now_def print_def)
  ultimately show ?thesis using nc gs p3 by blast
qed

section \<open>Registration and lookup\<close>

lemma remdups_drop_earlier: "k \<in> set ys \<Longrightarrow> remdups (xs @ k # ys) = remdups (xs @ ys)"
  by (induction xs) auto

lemma keys_register_calls:
  assumes "distinct (dict_keys d)"
  shows "dict_keys (register_calls regs d) = rev (remdups (rev (dict_keys d @ map fst regs)))"
  using assms
proof (induction regs arbitrary: d)
  case Nil
  then show ?case by (simp add: register_calls_def distinct_remdups_id)
next
  case (Cons r regs)
  obtain k c where r: "r = (k, c)" by (cases r)
  let ?d = "dict_setitem k c d"
  have dd: "distinct (dict_keys ?d)" using Cons.prems by (simp add: dict_keys_setitem)
  have "dict_keys (register_calls (r # regs) d) = dict_keys (register_calls regs ?d)"
    by (simp add: register_calls_def r NotifierFactory_register_def)
  also have "\<dots> = rev (remdups (rev (dict_keys ?d @ map fst regs)))"
    by (rule Cons.IH[OF dd])
  also have "\<dots> = rev (remdups (rev (dict_keys d @ map fst (r # regs))))"
    using remdups_drop_earlier[of k "rev (dict_keys d)" "rev (map fst regs)"]
    by (simp add: dict_keys_setitem r)
  finally show ?case .
qed

lemma map_of_register_calls:
  "map_of (register_calls regs d) = map_of d ++ map_of (rev regs)"
proof (induction regs arbitrary: d)
  case Nil
  then show ?case by (simp add: register_calls_def)
next
  case (Cons r regs)
  obtain k c where r: "r = (k, c)" by (cases r)
  have "map_of (register_calls (r # regs) d) = map_of (register_calls regs (dict_setitem k c d))"
    by (simp add: register_calls_def r NotifierFactory_register_def)
  also have "\<dots> = (map_of d)(k \<mapsto> c) ++ map_of (rev regs)"
    by (simp only: Cons.IH map_of_setitem)
  also have "\<dots> = map_of d ++ map_of (rev (r # regs))"
    by (auto simp: r fun_eq_iff map_add_def split: option.splits)
  finally show ?case .
qed

text \<open>
  C4. After any sequence of \<open>register\<close> calls on the empty dictionary,
  \<open>get_available_types\<close> lists the keys of the sequence, each once, in the order of their
  first registration: it is the list of registered keys with every later repetition
  dropped. One more call leaves the list as it is when the key is already there, and puts
  a new key at the end. After \<open>register(k, c)\<close>, \<open>create(k)\<close> returns \<open>c\<close> and \<open>create\<close> of
  any other key is as before; so \<open>create(k)\<close> returns the class of the last registration
  of \<open>k\<close>.
\<close>

theorem register_calls_keys:
  "NotifierFactory_get_available_types (register_calls regs []) = rev (remdups (rev (map fst regs)))
   \<and> distinct (NotifierFactory_get_available_types (register_calls regs []))
   \<and> set (NotifierFactory_get_available_types (register_calls regs [])) = fst ` set regs
   \<and> NotifierFactory_get_available_types (NotifierFactory_register k c (register_calls regs [])) =
       (if k \<in> set (NotifierFactory_get_available_types (register_calls regs []))
        then NotifierFactory_get_available_types (register_calls regs [])
        else NotifierFactory_get_available_types (register_calls regs []) @ [k])
   \<and> NotifierFactory_create (NotifierFactory_register k c (register_calls regs [])) k = Inr c
   \<and> (\<forall>k'. k' \<noteq> k \<longrightarrow>
         NotifierFactory_create (NotifierFactory_register k c (register_calls regs [])) k' =
         NotifierFactory_create (register_calls regs []) k')
   \<and> NotifierFactory_create (register_calls regs []) k =
       (case map_of (rev regs) k of
          None \<Rightarrow> Inl (Exc ValueError (''Tipo de notificador desconocido: '' @ k))
        | Some c' \<Rightarrow> Inr c')"
proof -
  let ?d = "register_calls regs []"
  have keys: "NotifierFactory_get_available_types ?d = rev (remdups (rev (map fst regs)))"
    using keys_register_calls[of "[]" regs]
    by (simp add: NotifierFactory_get_available_types_def dict_keys_def)
  have dist: "distinct (NotifierFactory_get_available_types ?d)"
    by (simp add: keys)
  have st: "set (NotifierFactory_get_available_types ?d) = fst ` set regs"
    by (simp add: keys)
  have step: "NotifierFactory_get_available_types (NotifierFactory_register k c ?d) =
       (if k \<in> set (NotifierFactory_get_available_types ?d)
        then NotifierFactory_get_available_types ?d
        else NotifierFactory_get_available_types ?d @ [k])"
    by (simp only: NotifierFactory_get_available_types_def NotifierFactory_register_def
        dict_keys_setitem)
  have new: "NotifierFactory_create (NotifierFactory_register k c ?d) k = Inr c"
    by (simp add: create_eq NotifierFactory_register_def map_of_setitem)
  have old: "\<forall>k'. k' \<noteq> k \<longrightarrow>
         NotifierFactory_create (NotifierFactory_register k c ?d) k' = NotifierFactory_create ?d k'"
    by (simp add: create_eq NotifierFactory_register_def map_of_setitem)
  have last: "NotifierFactory_create ?d k =
       (case map_of (rev regs) k of
          None \<Rightarrow> Inl (Exc ValueError (''Tipo de notificador desconocido: '' @ k))
        | Some c' \<Rightarrow> Inr c')"
    by (simp add: create_eq map_of_register_calls)
  from keys dist st step new old last show ?thesis by blast
qed

text \<open>
  Registering \<open>email\<close>, \<open>sms\<close> and \<open>email\<close> again with another class lists \<open>email, sms\<close>;
  \<open>create\<close> of \<open>email\<close> then returns the later class, and a late registration of
  \<open>telegram\<close> goes to the end of the list and leaves \<open>sms\<close> as it was.
\<close>

theorem register_calls_keys_witness:
  "NotifierFactory_get_available_types
     (register_calls [(''email'', EmailNotifier), (''sms'', SMSNotifier), (''email'', PushNotifier)] [])
     = [''email'', ''sms'']
   \<and> ''sms'' \<noteq> ''telegram''
   \<and> NotifierFactory_create
       (NotifierFactory_register ''telegram'' WhatsAppNotifier
         (register_calls [(''email'', EmailNotifier), (''sms'', SMSNotifier), (''email'', PushNotifier)] []))
       ''sms'' = Inr SMSNotifier
   \<and> NotifierFactory_create
       (register_calls [(''email'', EmailNotifier), (''sms'', SMSNotifier), (''email'', PushNotifier)] [])
       ''email'' = Inr PushNotifier
   \<and> NotifierFactory_get_available_types
       (NotifierFactory_register ''telegram'' WhatsAppNotifier
         (register_calls [(''email'', EmailNotifier), (''sms'', SMSNotifier), (''email'', PushNotifier)] []))
     = [''email'', ''sms'', ''telegram'']"
proof -
  let ?regs = "[(''email'', EmailNotifier), (''sms'', SMSNotifier), (''email'', PushNotifier)]"
  note T = register_calls_keys[of ?regs "''telegram''" WhatsAppNotifier]
  note T_keys = T[THEN conjunct1]
  note T_step = T[THEN conjunct2, THEN conjunct2, THEN conjunct2, THEN conjunct1]
  note T_old = T[THEN conjunct2, THEN conjunct2, THEN conjunct2, THEN conjunct2, THEN conjunct2,
      THEN conjunct1]
  note T_last = register_calls_keys[THEN conjunct2, THEN conjunct2, THEN conjunct2,
      THEN conjunct2, THEN conjunct2, THEN conjunct2]
  have ne: "''sms'' \<noteq> ''telegram''" by simp
  have keys: "NotifierFactory_get_available_types (register_calls ?regs []) = [''email'', ''sms'']"
    by (simp add: T_keys)
  have "NotifierFactory_create
       (NotifierFactory_register ''telegram'' WhatsAppNotifier (register_calls ?regs [])) ''sms''
       = NotifierFactory_create (register_calls ?regs []) ''sms''"
    by (rule T_old[rule_format, OF ne])
  also have "\<dots> = Inr SMSNotifier"
    by (simp add: T_last[of ?regs "''sms''"])
  finally have c1: "NotifierFactory_create
       (NotifierFactory_register ''telegram'' WhatsAppNotifier (register_calls ?regs [])) ''sms''
       = Inr SMSNotifier" .
  have c2: "NotifierFactory_create (register_calls ?regs []) ''email'' = Inr PushNotifier"
    by (simp add: T_last[of ?regs "''email''"])
  have k2: "NotifierFactory_get_available_types
       (NotifierFactory_register ''telegram'' WhatsAppNotifier (register_calls ?regs []))
     = [''email'', ''sms'', ''telegram'']"
    by (simp add: T_step keys)
  from keys ne c1 c2 k2 show ?thesis by (intro conjI)
qed

section \<open>Unknown keys\<close>

lemma generator_create_eq:
  "ReportGeneratorFactory_create d k =
     (case map_of d k of
        None \<Rightarrow> Inl (Exc ValueError (''Tipo de reporte desconocido: '' @ k))
      | Some c \<Rightarrow> Inr c)"
  unfolding ReportGeneratorFactory_create_def by (rule test_then_subscript)

lemma formatter_create_eq:
  "FormatterFactory_create d k =
     (case map_of d k of
        None \<Rightarrow> Inl (Exc ValueError (''Formato desconocido: '' @ k))
      | Some c \<Rightarrow> Inr c)"
  unfolding FormatterFactory_create_def by (rule test_then_subscript)

lemma delivery_create_eq:
  "DeliveryFactory_create d k =
     (case map_of d k of
        None \<Rightarrow> Inl (Exc ValueError (''M'' @ e_acute @ ''todo de entrega desconocido: '' @ k))
      | Some c \<Rightarrow> Inr c)"
  unfolding DeliveryFactory_create_def by (rule test_then_subscript)

text \<open>
  C3 does not hold as it is stated: the loaded notifier factory has no key \<open>bogus\<close>, and
  \<open>create\<close> of it raises a \<open>ValueError\<close>, which is not a \<open>LookupError\<close>.
\<close>

theorem create_unknown_key_counterexample:
  "\<not> dict_contains ''bogus'' NotifierFactory_loaded \<and>
   NotifierFactory_create NotifierFactory_loaded ''bogus'' =
     Inl (Exc ValueError ''Tipo de notificador desconocido: bogus'') \<and>
   \<not> isinstance (Exc ValueError ''Tipo de notificador desconocido: bogus'') LookupError"
  by (simp add: NotifierFactory_loaded_def NotifierFactory_register_def NotifierFactory_create_def
      dict_contains_def isinstance_def)

text \<open>
  C3, amended. In each of the four factories, \<open>create\<close> of a key that is not in the
  dictionary raises a \<open>ValueError\<close>, which is not of the \<open>LookupError\<close> kind, whose message
  is the factory's fixed text followed by the key; no instance is returned. \<open>create\<close> of a
  key that is in the dictionary does not fail: it returns the class stored under the key.
\<close>

theorem create_unknown_key:
  "(\<not> dict_contains k notifiers \<longrightarrow>
      NotifierFactory_create notifiers k =
        Inl (Exc ValueError (''Tipo de notificador desconocido: '' @ k)))
   \<and> (dict_contains k notifiers \<longrightarrow>
      (\<exists>c. dict_getitem notifiers k = Some c \<and> NotifierFactory_create notifiers k = Inr c))
   \<and> (\<not> dict_contains k generators \<longrightarrow>
      ReportGeneratorFactory_create generators k =
        Inl (Exc ValueError (''Tipo de reporte desconocido: '' @ k)))
   \<and> (dict_contains k generators \<longrightarrow>
      (\<exists>c. dict_getitem generators k = Some c \<and> ReportGeneratorFactory_create generators k = Inr c))
   \<and> (\<not> dict_contains k formatters \<longrightarrow>
      FormatterFactory_create formatters k = Inl (Exc ValueError (''Formato desconocido: '' @ k)))
   \<and> (dict_contains k formatters \<longrightarrow>
      (\<exists>c. dict_getitem formatters k = Some c \<and> FormatterFactory_create formatters k = Inr c))
   \<and> (\<not> dict_contains k methods \<longrightarrow>
      DeliveryFactory_create methods k =
        Inl (Exc ValueError (''M'' @ e_acute @ ''todo de entrega desconocido: '' @ k)))
   \<and> (dict_contains k methods \<longrightarrow>
      (\<exists>c. dict_getitem methods k = Some c \<and> DeliveryFactory_create methods k = Inr c))
   \<and> isinstance (Exc ValueError m) ValueError
   \<and> \<not> isinstance (Exc ValueError m) LookupError"
proof -
  have 1: "\<not> dict_contains k d \<Longrightarrow> map_of d k = None" for d :: "(string, 'v) dict"
    by (simp add: contains_iff_map_of)
  have 2: "dict_contains k d \<Longrightarrow> \<exists>c. dict_getitem d k = Some c \<and> map_of d k = Some c"
    for d :: "(string, 'v) dict"
    by (simp add: contains_iff_map_of dict_getitem_def)
  show ?thesis
    by (intro conjI impI)
       (auto simp: create_eq generator_create_eq formatter_create_eq delivery_create_eq
          isinstance_def dest!: 1 2)
qed

text \<open>The loaded factories, at one unknown and one known key each.\<close>

theorem create_unknown_key_witness:
  "\<not> dict_contains ''telegram'' NotifierFactory_loaded
   \<and> NotifierFactory_create NotifierFactory_loaded ''telegram'' =
       Inl (Exc ValueError ''Tipo de notificador desconocido: telegram'')
   \<and> dict_contains ''push'' NotifierFactory_loaded
   \<and> NotifierFactory_create NotifierFactory_loaded ''push'' = Inr PushNotifier
   \<and> \<not> dict_contains ''csv'' FormatterFactory_loaded
   \<and> FormatterFactory_create FormatterFactory_loaded ''csv'' =
       Inl (Exc ValueError ''Formato desconocido: csv'')
   \<and> dict_contains ''audit'' ReportGeneratorFactory_loaded
   \<and> ReportGeneratorFactory_create ReportGeneratorFactory_loaded ''audit'' = Inr AuditReportGenerator
   \<and> \<not> dict_contains ''pdf'' ReportGeneratorFactory_loaded
   \<and> ReportGeneratorFactory_create ReportGeneratorFactory_loaded ''pdf'' =
       Inl (Exc ValueError ''Tipo de reporte desconocido: pdf'')
   \<and> dict_contains ''html'' FormatterFactory_loaded
   \<and> FormatterFactory_create FormatterFactory_loaded ''html'' = Inr HTMLFormatter
   \<and> \<not> dict_contains ''fax'' DeliveryFactory_loaded
   \<and> DeliveryFactory_create DeliveryFactory_loaded ''fax'' =
       Inl (Exc ValueError (''M'' @ e_acute @ ''todo de entrega desconocido: fax''))
   \<and> dict_contains ''download'' DeliveryFactory_loaded
   \<and> DeliveryFactory_create DeliveryFactory_loaded ''download'' = Inr DownloadDelivery"
proof -
  note loaded = NotifierFactory_loaded_def NotifierFactory_register_def
    ReportGeneratorFactory_loaded_def ReportGeneratorFactory_register_def
    FormatterFactory_loaded_def FormatterFactory_register_def
    DeliveryFactory_loaded_def DeliveryFactory_register_def
  note T = create_unknown_key[where notifiers = NotifierFactory_loaded
      and generators = ReportGeneratorFactory_loaded and formatters = FormatterFactory_loaded
      and methods = DeliveryFactory_loaded]
  note N0 = T[THEN conjunct1, rule_format]
  note N1 = T[THEN conjunct2, THEN conjunct1, rule_format]
  note G0 = T[THEN conjunct2, THEN conjunct2, THEN conjunct1, rule_format]
  note G1 = T[THEN conjunct2, THEN conjunct2, THEN conjunct2, THEN conjunct1, rule_format]
  note F0 = T[THEN conjunct2, THEN conjunct2, THEN conjunct2, THEN conjunct2, THEN conjunct1,
      rule_format]
  note F1 = T[THEN conjunct2, THEN conjunct2, THEN conjunct2, THEN conjunct2, THEN conjunct2,
      THEN conjunct1, rule_format]
  note D0 = T[THEN conjunct2, THEN conjunct2, THEN conjunct2, THEN conjunct2, THEN conjunct2,
      THEN conjunct2, THEN conjunct1, rule_format]
  note D1 = T[THEN conjunct2, THEN conjunct2, THEN conjunct2, THEN conjunct2, THEN conjunct2,
      THEN conjunct2, THEN conjunct2, THEN conjunct1, rule_format]
  have n0: "\<not> dict_contains ''telegram'' NotifierFactory_loaded"
    and n1: "dict_contains ''push'' NotifierFactory_loaded"
    and g0: "\<not> dict_contains ''pdf'' ReportGeneratorFactory_loaded"
    and g1: "dict_contains ''audit'' ReportGeneratorFactory_loaded"
    and f0: "\<not> dict_contains ''csv'' FormatterFactory_loaded"
    and f1: "dict_contains ''html'' FormatterFactory_loaded"
    and d0: "\<not> dict_contains ''fax'' DeliveryFactory_loaded"
    and d1: "dict_contains ''download'' DeliveryFactory_loaded"
    by (simp_all add: loaded dict_contains_def)
  have n1': "NotifierFactory_create NotifierFactory_loaded ''push'' = Inr PushNotifier"
    using N1[OF n1] by (simp add: loaded dict_getitem_def)
  have g1': "ReportGeneratorFactory_create ReportGeneratorFactory_loaded ''audit'' = Inr AuditReportGenerator"
    using G1[OF g1] by (simp add: loaded dict_getitem_def)
  have f1': "FormatterFactory_create FormatterFactory_loaded ''html'' = Inr HTMLFormatter"
    using F1[OF f1] by (simp add: loaded dict_getitem_def)
  have d1': "DeliveryFactory_create DeliveryFactory_loaded ''download'' = Inr DownloadDelivery"
    using D1[OF d1] by (simp add: loaded dict_getitem_def)
  from n0 N0[OF n0] n1 n1' f0 F0[OF f0] g1 g1' g0 G0[OF g0] f1 f1' d0 D0[OF d0] d1 d1'
  show ?thesis by simp
qed

section \<open>The notification facade\<close>

lemma loop_same_creates:
  "(\<forall>k\<in>set ks. NotifierFactory_create ns k = NotifierFactory_create ns' k) \<Longrightarrow>
   process_order_loop py ns ord ks s = process_order_loop py ns' ord ks s"
proof (induction py ns ord ks s rule: process_order_loop.induct)
  case (1 py ns ord h w)
  then show ?case by simp
next
  case (2 py ns ord k rest h w)
  then show ?case
    by (auto split: sum.splits prod.splits)
qed

text \<open>
  C10. \<open>send_order_notifications\<close> always returns, and what it returns is the summary with
  status \<open>success\<close> and \<open>total_notifications\<close> the length of the requested list of
  channels, whatever the dictionary of notifiers holds. The history meanwhile grows by the
  number of requested keys that are registered only; with every requested key unregistered
  it does not grow at all, and the summary is the same.
\<close>

theorem send_order_notifications_summary:
  "\<exists>h' w'.
     send_order_notifications py notifiers oid nm eml phn dev tot channels (history, w) =
       (Inr \<lparr>status = ''success'', summary_order_id = oid, channels_notified = channels,
             total_notifications = length channels\<rparr>, h', w')
     \<and> length h' = length history + length (filter (\<lambda>k. dict_contains k notifiers) channels)
     \<and> ((\<forall>k\<in>set channels. \<not> dict_contains k notifiers) \<longrightarrow> h' = history)"
proof -
  let ?ord = "\<lparr>order_id = oid,
               customer = \<lparr>name = nm, email = eml, phone = phn, device_id = dev\<rparr>, total = tot\<rparr>"
  from loop_ok[of py notifiers ?ord channels history "print_order_header py ?ord w"]
  obtain recs w' where
    p: "process_order py notifiers ?ord channels (history, w) = (Inr (), history @ recs, w')"
    and l: "length recs = length (filter (\<lambda>k. dict_contains k notifiers) channels)"
    by (auto simp: process_order_def dest: list_all2_lengthD)
  have "send_order_notifications py notifiers oid nm eml phn dev tot channels (history, w) =
       (Inr \<lparr>status = ''success'', summary_order_id = oid, channels_notified = channels,
             total_notifications = length channels\<rparr>, history @ recs, w')"
    by (simp add: send_order_notifications_def p)
  moreover have "length (history @ recs) =
      length history + length (filter (\<lambda>k. dict_contains k notifiers) channels)"
    by (simp add: l)
  moreover have "(\<forall>k\<in>set channels. \<not> dict_contains k notifiers) \<longrightarrow> history @ recs = history"
    using l by (auto simp: filter_empty_conv[THEN iffD2])
  ultimately show ?thesis by blast
qed

text \<open>
  Two channels that the loaded factory does not have: the summary counts two notifications,
  and the history stays empty.
\<close>

theorem send_order_notifications_summary_witness:
  "list_all (\<lambda>k. \<not> dict_contains k NotifierFactory_loaded) [''fax'', ''pigeon''] \<and>
   (\<exists>w'. send_order_notifications example_builtins NotifierFactory_loaded ''ORD-002''
       ''Carlos Ruiz'' ''carlos.ruiz@email.com'' ''+34-600-789-012'' ''DEVICE-XYZ-789'' 75
       [''fax'', ''pigeon''] ([], \<lparr>stdout = [], now_calls = 0\<rparr>) =
     (Inr \<lparr>status = ''success'', summary_order_id = ''ORD-002'',
           channels_notified = [''fax'', ''pigeon''], total_notifications = 2\<rparr>, [], w'))"
proof -
  have u: "\<forall>k\<in>set [''fax'', ''pigeon'']. \<not> dict_contains k NotifierFactory_loaded"
    by (simp add: NotifierFactory_loaded_def NotifierFactory_register_def dict_contains_def)
  from send_order_notifications_summary[of example_builtins NotifierFactory_loaded "''ORD-002''"
      "''Carlos Ruiz''" "''carlos.ruiz@email.com''" "''+34-600-789-012''" "''DEVICE-XYZ-789''" 75
      "[''fax'', ''pigeon'']" "[]" "\<lparr>stdout = [], now_calls = 0\<rparr>"]
  obtain h' w' where
    r: "send_order_notifications example_builtins NotifierFactory_loaded ''ORD-002''
       ''Carlos Ruiz'' ''carlos.ruiz@email.com'' ''+34-600-789-012'' ''DEVICE-XYZ-789'' 75
       [''fax'', ''pigeon''] ([], \<lparr>stdout = [], now_calls = 0\<rparr>) =
     (Inr \<lparr>status = ''success'', summary_order_id = ''ORD-002'',
           channels_notified = [''fax'', ''pigeon''],
           total_notifications = length [''fax'', ''pigeon'']\<rparr>, h', w')"
    and h: "(\<forall>k\<in>set [''fax'', ''pigeon'']. \<not> dict_contains k NotifierFactory_loaded) \<longrightarrow> h' = []"
    by (elim exE conjE)
  from h u have "h' = []" by (rule mp)
  with r have "send_order_notifications example_builtins NotifierFactory_loaded ''ORD-002''
       ''Carlos Ruiz'' ''carlos.ruiz@email.com'' ''+34-600-789-012'' ''DEVICE-XYZ-789'' 75
       [''fax'', ''pigeon''] ([], \<lparr>stdout = [], now_calls = 0\<rparr>) =
     (Inr \<lparr>status = ''success'', summary_order_id = ''ORD-002'',
           channels_notified = [''fax'', ''pigeon''], total_notifications = 2\<rparr>, [], w')"
    by simp
  moreover from u have "list_all (\<lambda>k. \<not> dict_contains k NotifierFactory_loaded) [''fax'', ''pigeon'']"
    by (simp only: list_all_iff)
  ultimately show ?thesis by (intro conjI exI)
qed

lemma process_order_new_key:
  assumes nc: "\<not> dict_contains key ns"
  shows "\<exists>h1 w1. process_order py ns ord (dict_keys ns) s = (Inr (), h1, w1) \<and>
     process_order py (NotifierFactory_register key cls ns) ord (dict_keys ns @ [key]) s =
       (Inr (), h1 @ [fst (send cls py ord w1)], snd (send cls py ord w1))"
proof -
  let ?ns' = "NotifierFactory_register key cls ns"
  obtain h w where s: "s = (h, w)" by (cases s)
  from loop_ok[of py ns ord "dict_keys ns" h "print_order_header py ord w"]
  obtain recs w1 where
    p: "process_order py ns ord (dict_keys ns) s = (Inr (), h @ recs, w1)"
    by (auto simp: process_order_def s)
  have same: "\<forall>k\<in>set (dict_keys ns). NotifierFactory_create ns k = NotifierFactory_create ?ns' k"
    using nc by (auto simp: create_eq NotifierFactory_register_def map_of_setitem
        dict_contains_def dict_keys_def)
  have p': "process_order py ?ns' ord (dict_keys ns) s = (Inr (), h @ recs, w1)"
    using p loop_same_creates[OF same, of py ord] by (simp add: process_order_def)
  have "NotifierFactory_create ?ns' key = Inr cls"
    by (simp add: create_eq NotifierFactory_register_def map_of_setitem)
  then have "process_order py ?ns' ord (dict_keys ns @ [key]) s =
       (Inr (), (h @ recs) @ [fst (send cls py ord w1)], snd (send cls py ord w1))"
    by (simp add: process_order_snoc p' split: prod.splits)
  with p show ?thesis by blast
qed

text \<open>
  C7. \<open>send_all_channels\<close> is \<open>send_order_notifications\<close> on the keys the factory holds
  when it is called. So after a registration under a key that was not there, the list of
  channels is the old one followed by the new key, \<open>create\<close> of every other key is as
  before, and the shortcut does what it did before the registration and then sends through
  the new class: one more record, at the end of the history, and one more channel in the
  summary.
\<close>

theorem send_all_channels_late_registration:
  "send_all_channels py notifiers oid nm eml phn dev tot s =
     send_order_notifications py notifiers oid nm eml phn dev tot
       (NotifierFactory_get_available_types notifiers) s
   \<and> (\<not> dict_contains key notifiers \<longrightarrow>
        NotifierFactory_get_available_types (NotifierFactory_register key cls notifiers) =
          NotifierFactory_get_available_types notifiers @ [key]
        \<and> (\<forall>k. k \<noteq> key \<longrightarrow>
              NotifierFactory_create (NotifierFactory_register key cls notifiers) k =
              NotifierFactory_create notifiers k)
        \<and> (\<exists>sm h1 w1.
              send_all_channels py notifiers oid nm eml phn dev tot s = (Inr sm, h1, w1) \<and>
              send_all_channels py (NotifierFactory_register key cls notifiers)
                  oid nm eml phn dev tot s =
                (Inr (sm\<lparr>channels_notified := channels_notified sm @ [key],
                         total_notifications := Suc (total_notifications sm)\<rparr>),
                 h1 @ [fst (send cls py
                        \<lparr>order_id = oid,
                         customer = \<lparr>name = nm, email = eml, phone = phn, device_id = dev\<rparr>,
                         total = tot\<rparr> w1)],
                 snd (send cls py
                        \<lparr>order_id = oid,
                         customer = \<lparr>name = nm, email = eml, phone = phn, device_id = dev\<rparr>,
                         total = tot\<rparr> w1))))"
proof (intro conjI impI)
  show "send_all_channels py notifiers oid nm eml phn dev tot s =
     send_order_notifications py notifiers oid nm eml phn dev tot
       (NotifierFactory_get_available_types notifiers) s"
    by (simp add: send_all_channels_def)
next
  assume nc: "\<not> dict_contains key notifiers"
  then show "NotifierFactory_get_available_types (NotifierFactory_register key cls notifiers) =
          NotifierFactory_get_available_types notifiers @ [key]"
    by (simp add: NotifierFactory_get_available_types_def NotifierFactory_register_def
        dict_keys_setitem dict_contains_def dict_keys_def[symmetric])
next
  show "\<forall>k. k \<noteq> key \<longrightarrow>
              NotifierFactory_create (NotifierFactory_register key cls notifiers) k =
              NotifierFactory_create notifiers k"
    by (simp add: create_eq NotifierFactory_register_def map_of_setitem)
next
  assume nc: "\<not> dict_contains key notifiers"
  let ?ord = "\<lparr>order_id = oid,
               customer = \<lparr>name = nm, email = eml, phone = phn, device_id = dev\<rparr>, total = tot\<rparr>"
  let ?ns' = "NotifierFactory_register key cls notifiers"
  have keys': "dict_keys ?ns' = dict_keys notifiers @ [key]"
    using nc by (simp add: NotifierFactory_register_def dict_keys_setitem dict_contains_def
        dict_keys_def[symmetric])
  from process_order_new_key[OF nc, of py ?ord s cls]
  obtain h1 w1 where
    p: "process_order py notifiers ?ord (dict_keys notifiers) s = (Inr (), h1, w1)" and
    p': "process_order py ?ns' ?ord (dict_keys notifiers @ [key]) s =
       (Inr (), h1 @ [fst (send cls py ?ord w1)], snd (send cls py ?ord w1))"
    by blast
  let ?sm = "\<lparr>status = ''success'', summary_order_id = oid,
              channels_notified = dict_keys notifiers,
              total_notifications = length (dict_keys notifiers)\<rparr>"
  have a: "send_all_channels py notifiers oid nm eml phn dev tot s = (Inr ?sm, h1, w1)"
    by (simp add: send_all_channels_def send_order_notifications_def
        NotifierFactory_get_available_types_def Let_def p)
  have b: "send_all_channels py ?ns' oid nm eml phn dev tot s =
      (Inr (?sm\<lparr>channels_notified := channels_notified ?sm @ [key],
               total_notifications := Suc (total_notifications ?sm)\<rparr>),
       h1 @ [fst (send cls py ?ord w1)], snd (send cls py ?ord w1))"
    by (simp add: send_all_channels_def send_order_notifications_def
        NotifierFactory_get_available_types_def Let_def keys' p')
  from a b show "\<exists>sm h1 w1.
              send_all_channels py notifiers oid nm eml phn dev tot s = (Inr sm, h1, w1) \<and>
              send_all_channels py ?ns' oid nm eml phn dev tot s =
                (Inr (sm\<lparr>channels_notified := channels_notified sm @ [key],
                         total_notifications := Suc (total_notifications sm)\<rparr>),
                 h1 @ [fst (send cls py ?ord w1)], snd (send cls py ?ord w1))"
    by blast
qed

text \<open>
  A telegram notifier registered after the module's four: the shortcut notifies five
  channels, telegram last.
\<close>

theorem send_all_channels_late_registration_witness:
  "\<not> dict_contains ''telegram'' NotifierFactory_loaded \<and>
   (\<exists>sm h w'.
      send_all_channels example_builtins
        (NotifierFactory_register ''telegram'' example_TelegramNotifier NotifierFactory_loaded)
        ''ORD-002'' ''Carlos Ruiz'' ''carlos.ruiz@email.com'' ''+34-600-789-012''
        ''DEVICE-XYZ-789'' 75 ([], \<lparr>stdout = [], now_calls = 0\<rparr>) = (Inr sm, h, w') \<and>
      channels_notified sm = [''email'', ''sms'', ''push'', ''whatsapp'', ''telegram''] \<and>
      total_notifications sm = 5 \<and>
      map type h = [''email'', ''sms'', ''push'', ''whatsapp'', ''telegram''])"
proof -
  let ?s = "([] :: NotificationRecord list, \<lparr>stdout = [], now_calls = 0\<rparr>)"
  let ?ord = "\<lparr>order_id = ''ORD-002'',
      customer = \<lparr>name = ''Carlos Ruiz'', email = ''carlos.ruiz@email.com'',
                  phone = ''+34-600-789-012'', device_id = ''DEVICE-XYZ-789''\<rparr>,
      total = 75\<rparr>"
  have nc: "\<not> dict_contains ''telegram'' NotifierFactory_loaded"
    by (simp add: NotifierFactory_loaded_def NotifierFactory_register_def dict_contains_def)
  note T = send_all_channels_late_registration[of example_builtins NotifierFactory_loaded
      "''ORD-002''" "''Carlos Ruiz''" "''carlos.ruiz@email.com''" "''+34-600-789-012''"
      "''DEVICE-XYZ-789''" 75 ?s "''telegram''" example_TelegramNotifier]
  from T[THEN conjunct2, rule_format, OF nc, THEN conjunct2, THEN conjunct2]
  obtain sm h1 w1 where
    a: "send_all_channels example_builtins NotifierFactory_loaded
        ''ORD-002'' ''Carlos Ruiz'' ''carlos.ruiz@email.com'' ''+34-600-789-012''
        ''DEVICE-XYZ-789'' 75 ?s = (Inr sm, h1, w1)" and
    b: "send_all_channels example_builtins
        (NotifierFactory_register ''telegram'' example_TelegramNotifier NotifierFactory_loaded)
        ''ORD-002'' ''Carlos Ruiz'' ''carlos.ruiz@email.com'' ''+34-600-789-012''
        ''DEVICE-XYZ-789'' 75 ?s =
          (Inr (sm\<lparr>channels_notified := channels_notified sm @ [''telegram''],
                   total_notifications := Suc (total_notifications sm)\<rparr>),
           h1 @ [fst (send example_TelegramNotifier example_builtins ?ord w1)],
           snd (send example_TelegramNotifier example_builtins ?ord w1))"
    by (elim exE conjE)
  have e: "\<exists>h w. send_all_channels example_builtins NotifierFactory_loaded
        ''ORD-002'' ''Carlos Ruiz'' ''carlos.ruiz@email.com'' ''+34-600-789-012''
        ''DEVICE-XYZ-789'' 75 ?s =
      (Inr \<lparr>status = ''success'', summary_order_id = ''ORD-002'',
             channels_notified = [''email'', ''sms'', ''push'', ''whatsapp''],
             total_notifications = 4\<rparr>, h, w) \<and>
      map type h = [''email'', ''sms'', ''push'', ''whatsapp'']"
    by (simp add: send_all_channels_def send_order_notifications_def process_order_def
        NotifierFactory_get_available_types_def dict_keys_def NotifierFactory_loaded_def
        NotifierFactory_register_def NotifierFactory_create_def dict_contains_def
        dict_getitem_def notifier_defs Let_def datetime_now_def)
  with a have sm: "channels_notified sm = [''email'', ''sms'', ''push'', ''whatsapp'']"
      "total_notifications sm = 4" and h1: "map type h1 = [''email'', ''sms'', ''push'', ''whatsapp'']"
    by auto
  have t: "type (fst (send example_TelegramNotifier example_builtins ?ord w1)) = ''telegram''"
    by (simp add: example_TelegramNotifier_def Let_def datetime_now_def)
  let ?sm = "sm\<lparr>channels_notified := channels_notified sm @ [''telegram''],
                   total_notifications := Suc (total_notifications sm)\<rparr>"
  let ?h = "h1 @ [fst (send example_TelegramNotifier example_builtins ?ord w1)]"
  have "channels_notified ?sm = [''email'', ''sms'', ''push'', ''whatsapp'', ''telegram'']"
    "total_notifications ?sm = 5"
    "map type ?h = [''email'', ''sms'', ''push'', ''whatsapp'', ''telegram'']"
    by (simp_all add: sm h1 t)
  with b nc show ?thesis by (intro conjI exI)
qed

section \<open>The variants the modules register\<close>

text \<open>
  C9. The notifier factory is loaded with the keys \<open>email\<close>, \<open>sms\<close>, \<open>push\<close> and
  \<open>whatsapp\<close>. For each of them, the class registered under the key reports the key as its
  type, and the record its \<open>send\<close> returns has the key as its type and as its recipient
  the customer's email address for \<open>email\<close>, the device id for \<open>push\<close> and the phone for
  \<open>sms\<close> and \<open>whatsapp\<close>. In the three report factories too, every class reports the key
  it is registered under.
\<close>

theorem registered_variants:
  "map fst NotifierFactory_loaded = [''email'', ''sms'', ''push'', ''whatsapp'']
   \<and> (\<forall>(k, n)\<in>set NotifierFactory_loaded.
         get_type n = k \<and> type (fst (send n py order w)) = k \<and>
         recipient (fst (send n py order w)) =
           (if k = ''email'' then email (customer order)
            else if k = ''push'' then device_id (customer order)
            else phone (customer order)))
   \<and> (\<forall>(k, g)\<in>set ReportGeneratorFactory_loaded. get_type' g = k)
   \<and> (\<forall>(k, f)\<in>set FormatterFactory_loaded. get_format_type f = k)
   \<and> (\<forall>(k, m)\<in>set DeliveryFactory_loaded. get_method_type m = k)"
  by (simp add: NotifierFactory_loaded_def NotifierFactory_register_def notifier_defs Let_def
      datetime_now_def ReportGeneratorFactory_loaded_def ReportGeneratorFactory_register_def
      FormatterFactory_loaded_def FormatterFactory_register_def
      DeliveryFactory_loaded_def DeliveryFactory_register_def
      SalesReportGenerator_def InventoryReportGenerator_def FinancialReportGenerator_def
      AuditReportGenerator_def PDFFormatter_def ExcelFormatter_def HTMLFormatter_def
      EmailDelivery_def DownloadDelivery_def CloudDelivery_def)

text \<open>
  The push notifier and the Excel formatter, as the module registers them.
\<close>

theorem registered_variants_witness:
  "(''push'', PushNotifier) \<in> set NotifierFactory_loaded
   \<and> type (fst (send PushNotifier example_builtins example_order \<lparr>stdout = [], now_calls = 0\<rparr>))
       = ''push''
   \<and> recipient (fst (send PushNotifier example_builtins example_order \<lparr>stdout = [], now_calls = 0\<rparr>))
       = ''DEVICE-XYZ-789''
   \<and> (''excel'', ExcelFormatter) \<in> set FormatterFactory_loaded
   \<and> get_format_type ExcelFormatter = ''excel''"
proof -
  note T = registered_variants[of example_builtins example_order "\<lparr>stdout = [], now_calls = 0\<rparr>"]
  have p: "(''push'', PushNotifier) \<in> set NotifierFactory_loaded"
    by (simp add: NotifierFactory_loaded_def NotifierFactory_register_def)
  have x: "(''excel'', ExcelFormatter) \<in> set FormatterFactory_loaded"
    by (simp add: FormatterFactory_loaded_def FormatterFactory_register_def)
  from T[THEN conjunct2, THEN conjunct1, rule_format, OF p]
  have "type (fst (send PushNotifier example_builtins example_order \<lparr>stdout = [], now_calls = 0\<rparr>))
       = ''push''"
    "recipient (fst (send PushNotifier example_builtins example_order \<lparr>stdout = [], now_calls = 0\<rparr>))
       = ''DEVICE-XYZ-789''"
    by (simp_all add: example_order_def)
  moreover from T[THEN conjunct2, THEN conjunct2, THEN conjunct2, THEN conjunct1, rule_format, OF x]
  have "get_format_type ExcelFormatter = ''excel''" by simp
  ultimately show ?thesis using p x by (intro conjI)
qed

section \<open>Report generators\<close>











text \<open>
  C5. For every generator and every payload, \<open>generate\<close> returns the header, then the body
  the generator builds, then the footer, and reads the clock once. The header is made of
  the generator's title and the time of that reading between fixed lines, and the footer is
  a fixed line; only the body is the generator's own, and the four registered generators
  differ in it. \<open>generate_report\<close> hands exactly this text to the formatter, whatever the
  formatter and the delivery method are, and each registered formatter puts a fixed text
  before it and one after it.
\<close>

theorem generate_template:
  "fst (generate py g d w) = fst (build_header py g w) @ build_body g py d @ build_footer
   \<and> snd (generate py g d w) = snd (build_header py g w)
   \<and> fst (build_header py g w) =
       replicate 60 CHR ''='' @ nl @ ''           '' @ get_title g @ nl @
       replicate 60 CHR ''='' @ nl @
       ''Fecha de generaci'' @ o_acute @ ''n: '' @ strftime py (now_calls w) ''%Y-%m-%d %H:%M:%S''
       @ nl @ nl
   \<and> build_footer = nl @ replicate 60 CHR ''='' @ nl
   \<and> map (build_body \<circ> snd) ReportGeneratorFactory_loaded =
       [SalesReportGenerator_build_body, InventoryReportGenerator_build_body,
        FinancialReportGenerator_build_body, AuditReportGenerator_build_body]
   \<and> (ReportGeneratorFactory_create generators rtype = Inr g \<and>
       FormatterFactory_create formatters oformat = Inr f \<and>
       DeliveryFactory_create methods dmethod = Inr m \<longrightarrow>
         fst (generate_report py generators formatters methods rtype d oformat dmethod (h, w)) =
           Inr (fst (format f (fst (build_header py g w) @ build_body g py d @ build_footer)
                      (snd (build_header py g w)))))
   \<and> (\<forall>(k, f)\<in>set FormatterFactory_loaded.
         \<exists>pre post. \<forall>content w. fst (format f content w) = pre @ content @ post)"
proof (intro conjI impI)
  show "fst (generate py g d w) = fst (build_header py g w) @ build_body g py d @ build_footer"
    by (simp add: generate_def Let_def split: prod.splits)
  show "snd (generate py g d w) = snd (build_header py g w)"
    by (simp add: generate_def Let_def split: prod.splits)
  show "fst (build_header py g w) =
       replicate 60 CHR ''='' @ nl @ ''           '' @ get_title g @ nl @
       replicate 60 CHR ''='' @ nl @
       ''Fecha de generaci'' @ o_acute @ ''n: '' @ strftime py (now_calls w) ''%Y-%m-%d %H:%M:%S''
       @ nl @ nl"
    by (simp add: build_header_def datetime_now_def Let_def)
  show "build_footer = nl @ replicate 60 CHR ''='' @ nl"
    by (simp add: build_footer_def)
  show "map (build_body \<circ> snd) ReportGeneratorFactory_loaded =
       [SalesReportGenerator_build_body, InventoryReportGenerator_build_body,
        FinancialReportGenerator_build_body, AuditReportGenerator_build_body]"
    by (simp add: ReportGeneratorFactory_loaded_def ReportGeneratorFactory_register_def
        SalesReportGenerator_def InventoryReportGenerator_def FinancialReportGenerator_def
        AuditReportGenerator_def)
  show "\<forall>(k, f)\<in>set FormatterFactory_loaded.
         \<exists>pre post. \<forall>content w. fst (format f content w) = pre @ content @ post"
  proof -
    have "\<exists>pre post. \<forall>content w. fst (PDFFormatter_format content w) = pre @ content @ post"
      by (intro exI[of _ "''[PDF FORMAT]'' @ nl"] exI[of _ "nl @ ''[END PDF]''"])
         (simp add: PDFFormatter_format_def)
    moreover
    have "\<exists>pre post. \<forall>content w. fst (ExcelFormatter_format content w) = pre @ content @ post"
      by (intro exI[of _ "''[EXCEL FORMAT]'' @ nl"] exI[of _ "nl @ ''[END EXCEL]''"])
         (simp add: ExcelFormatter_format_def)
    moreover
    have "\<exists>pre post. \<forall>content w. fst (HTMLFormatter_format content w) = pre @ content @ post"
      by (intro exI[of _ "''<html><body><pre>''"] exI[of _ "''</pre></body></html>''"])
         (simp add: HTMLFormatter_format_def)
    ultimately show ?thesis
      by (simp add: FormatterFactory_loaded_def FormatterFactory_register_def
          PDFFormatter_def ExcelFormatter_def HTMLFormatter_def)
  qed
next
  assume "ReportGeneratorFactory_create generators rtype = Inr g \<and>
       FormatterFactory_create formatters oformat = Inr f \<and>
       DeliveryFactory_create methods dmethod = Inr m"
  then show "fst (generate_report py generators formatters methods rtype d oformat dmethod (h, w)) =
           Inr (fst (format f (fst (build_header py g w) @ build_body g py d @ build_footer)
                      (snd (build_header py g w))))"
    by (simp add: generate_report_def generate_def Let_def split: prod.splits)
qed

section \<open>The report system\<close>

lemmas report_loaded_defs =
  ReportGeneratorFactory_loaded_def ReportGeneratorFactory_register_def
  FormatterFactory_loaded_def FormatterFactory_register_def
  DeliveryFactory_loaded_def DeliveryFactory_register_def

text \<open>
  The financial report in PDF for download: the text returned is the header, the financial
  body and the footer between the PDF markers.
\<close>

theorem generate_template_witness:
  "ReportGeneratorFactory_create ReportGeneratorFactory_loaded ''financial'' = Inr FinancialReportGenerator
   \<and> FormatterFactory_create FormatterFactory_loaded ''pdf'' = Inr PDFFormatter
   \<and> DeliveryFactory_create DeliveryFactory_loaded ''download'' = Inr DownloadDelivery
   \<and> fst (generate_report example_builtins ReportGeneratorFactory_loaded FormatterFactory_loaded
            DeliveryFactory_loaded ''financial'' example_financial_data ''pdf'' ''download''
            ([], \<lparr>stdout = [], now_calls = 0\<rparr>)) =
       Inr (''[PDF FORMAT]'' @ nl @
            fst (build_header example_builtins FinancialReportGenerator \<lparr>stdout = [], now_calls = 0\<rparr>) @
            FinancialReportGenerator_build_body example_builtins example_financial_data @
            build_footer @ nl @ ''[END PDF]'')
   \<and> (''pdf'', PDFFormatter) \<in> set FormatterFactory_loaded
   \<and> (\<exists>pre post. \<forall>content w. fst (format PDFFormatter content w) = pre @ content @ post)"
proof -
  let ?w = "\<lparr>stdout = [], now_calls = 0\<rparr>"
  have g: "ReportGeneratorFactory_create ReportGeneratorFactory_loaded ''financial''
      = Inr FinancialReportGenerator"
    and f: "FormatterFactory_create FormatterFactory_loaded ''pdf'' = Inr PDFFormatter"
    and m: "DeliveryFactory_create DeliveryFactory_loaded ''download'' = Inr DownloadDelivery"
    by (simp_all add: report_loaded_defs ReportGeneratorFactory_create_def
        FormatterFactory_create_def DeliveryFactory_create_def dict_contains_def dict_getitem_def)
  have p: "(''pdf'', PDFFormatter) \<in> set FormatterFactory_loaded"
    by (simp add: report_loaded_defs)
  note T = generate_template[of example_builtins FinancialReportGenerator example_financial_data ?w
      ReportGeneratorFactory_loaded "''financial''" FormatterFactory_loaded "''pdf''" PDFFormatter
      DeliveryFactory_loaded "''download''" DownloadDelivery "[]"]
  note T_report = T[THEN conjunct2, THEN conjunct2, THEN conjunct2, THEN conjunct2, THEN conjunct2,
      THEN conjunct1, rule_format, OF conjI[OF g conjI[OF f m]]]
  note T_wrap = T[THEN conjunct2, THEN conjunct2, THEN conjunct2, THEN conjunct2, THEN conjunct2,
      THEN conjunct2, rule_format, OF p]
  have r: "fst (generate_report example_builtins ReportGeneratorFactory_loaded FormatterFactory_loaded
            DeliveryFactory_loaded ''financial'' example_financial_data ''pdf'' ''download''
            ([], ?w)) =
       Inr (''[PDF FORMAT]'' @ nl @
            fst (build_header example_builtins FinancialReportGenerator ?w) @
            FinancialReportGenerator_build_body example_builtins example_financial_data @
            build_footer @ nl @ ''[END PDF]'')"
    by (simp add: T_report PDFFormatter_def PDFFormatter_format_def FinancialReportGenerator_def)
  from T_wrap have x: "\<exists>pre post. \<forall>content w. fst (format PDFFormatter content w) = pre @ content @ post"
    by simp
  from g f m r p x show ?thesis by (intro conjI)
qed

text \<open>
  C2. \<open>generate_report\<close> looks up the generator, then the formatter, then the delivery
  method. At the first of the three keys that is not registered it raises that factory's
  \<open>ValueError\<close> to the caller, with the list of reports and the world as they were: nothing
  is generated, printed or recorded. With the three keys registered it generates the
  content, formats it, delivers the formatted text, appends one record with the three keys
  and the time to the list of reports, prints the closing lines and returns the formatted
  text.
\<close>

theorem generate_report_all_or_nothing:
  "(\<not> dict_contains rtype generators \<longrightarrow>
      generate_report py generators formatters methods rtype d oformat dmethod s =
        (Inl (Exc ValueError (''Tipo de reporte desconocido: '' @ rtype)), s))
   \<and> (dict_contains rtype generators \<and> \<not> dict_contains oformat formatters \<longrightarrow>
      generate_report py generators formatters methods rtype d oformat dmethod s =
        (Inl (Exc ValueError (''Formato desconocido: '' @ oformat)), s))
   \<and> (dict_contains rtype generators \<and> dict_contains oformat formatters \<and>
       \<not> dict_contains dmethod methods \<longrightarrow>
      generate_report py generators formatters methods rtype d oformat dmethod s =
        (Inl (Exc ValueError (''M'' @ e_acute @ ''todo de entrega desconocido: '' @ dmethod)), s))
   \<and> (dict_contains rtype generators \<and> dict_contains oformat formatters \<and>
       dict_contains dmethod methods \<longrightarrow>
      (\<exists>g f m content w1 formatted w2 w'.
         dict_getitem generators rtype = Some g \<and> dict_getitem formatters oformat = Some f \<and>
         dict_getitem methods dmethod = Some m \<and>
         generate py g d (snd s) = (content, w1) \<and>
         format f content w1 = (formatted, w2) \<and>
         generate_report py generators formatters methods rtype d oformat dmethod s =
           (Inr formatted,
            fst s @ [\<lparr>report_type = rtype, output_format = oformat, delivery_method = dmethod,
                      timestamp' = strftime py
                        (now_calls (deliver m py formatted rtype (get_file_extension f) w2))
                        ''%Y-%m-%d %H:%M:%S''\<rparr>],
            w') \<and>
         stdout w' = stdout (deliver m py formatted rtype (get_file_extension f) w2) @
           [nl @ sym_check @ '' Reporte generado exitosamente'' @ nl, formatted,
            nl @ replicate 60 CHR ''='' @ nl]))"
proof (intro conjI impI)
  assume "\<not> dict_contains rtype generators"
  then show "generate_report py generators formatters methods rtype d oformat dmethod s =
        (Inl (Exc ValueError (''Tipo de reporte desconocido: '' @ rtype)), s)"
    by (simp add: generate_report_def ReportGeneratorFactory_create_def)
next
  assume "dict_contains rtype generators \<and> \<not> dict_contains oformat formatters"
  then show "generate_report py generators formatters methods rtype d oformat dmethod s =
        (Inl (Exc ValueError (''Formato desconocido: '' @ oformat)), s)"
    by (auto simp: generate_report_def generator_create_eq formatter_create_eq
        contains_iff_map_of)
next
  assume "dict_contains rtype generators \<and> dict_contains oformat formatters \<and>
       \<not> dict_contains dmethod methods"
  then show "generate_report py generators formatters methods rtype d oformat dmethod s =
        (Inl (Exc ValueError (''M'' @ e_acute @ ''todo de entrega desconocido: '' @ dmethod)), s)"
    by (auto simp: generate_report_def generator_create_eq formatter_create_eq
        delivery_create_eq contains_iff_map_of)
next
  assume a: "dict_contains rtype generators \<and> dict_contains oformat formatters \<and>
       dict_contains dmethod methods"
  then obtain g f m where
    g: "map_of generators rtype = Some g" and f: "map_of formatters oformat = Some f"
    and m: "map_of methods dmethod = Some m"
    by (auto simp: contains_iff_map_of)
  obtain content w1 where c: "generate py g d (snd s) = (content, w1)"
    by (cases "generate py g d (snd s)")
  obtain formatted w2 where fm: "format f content w1 = (formatted, w2)"
    by (cases "format f content w1")
  let ?w3 = "deliver m py formatted rtype (get_file_extension f) w2"
  let ?w7 = "print (nl @ replicate 60 CHR ''='' @ nl)
      (print formatted (print (nl @ sym_check @ '' Reporte generado exitosamente'' @ nl)
        (snd (datetime_now ?w3))))"
  have r: "generate_report py generators formatters methods rtype d oformat dmethod s =
           (Inr formatted,
            fst s @ [\<lparr>report_type = rtype, output_format = oformat, delivery_method = dmethod,
                      timestamp' = strftime py (now_calls ?w3) ''%Y-%m-%d %H:%M:%S''\<rparr>],
            ?w7)"
    by (simp add: generate_report_def generator_create_eq formatter_create_eq
        delivery_create_eq g f m c fm Let_def datetime_now_def)
  have o: "stdout ?w7 = stdout ?w3 @
           [nl @ sym_check @ '' Reporte generado exitosamente'' @ nl, formatted,
            nl @ replicate 60 CHR ''='' @ nl]"
    by (simp add: print_def datetime_now_def)
  from g f m c fm r o
  show "\<exists>g f m content w1 formatted w2 w'.
         dict_getitem generators rtype = Some g \<and> dict_getitem formatters oformat = Some f \<and>
         dict_getitem methods dmethod = Some m \<and>
         generate py g d (snd s) = (content, w1) \<and>
         format f content w1 = (formatted, w2) \<and>
         generate_report py generators formatters methods rtype d oformat dmethod s =
           (Inr formatted,
            fst s @ [\<lparr>report_type = rtype, output_format = oformat, delivery_method = dmethod,
                      timestamp' = strftime py
                        (now_calls (deliver m py formatted rtype (get_file_extension f) w2))
                        ''%Y-%m-%d %H:%M:%S''\<rparr>],
            w') \<and>
         stdout w' = stdout (deliver m py formatted rtype (get_file_extension f) w2) @
           [nl @ sym_check @ '' Reporte generado exitosamente'' @ nl, formatted,
            nl @ replicate 60 CHR ''='' @ nl]"
    unfolding dict_getitem_def by blast
qed

text \<open>
  With the loaded factories: the format \<open>csv\<close> is unknown, and the call raises with nothing
  recorded; the format \<open>pdf\<close> and the delivery \<open>download\<close> are known, and the call
  returns with one record, stamped at the third reading of the clock.
\<close>

theorem generate_report_all_or_nothing_witness:
  "dict_contains ''financial'' ReportGeneratorFactory_loaded
   \<and> \<not> dict_contains ''csv'' FormatterFactory_loaded
   \<and> generate_report example_builtins ReportGeneratorFactory_loaded FormatterFactory_loaded
        DeliveryFactory_loaded ''financial'' example_financial_data ''csv'' ''email''
        ([], \<lparr>stdout = [], now_calls = 0\<rparr>) =
       (Inl (Exc ValueError ''Formato desconocido: csv''), [], \<lparr>stdout = [], now_calls = 0\<rparr>)
   \<and> dict_contains ''pdf'' FormatterFactory_loaded
   \<and> dict_contains ''download'' DeliveryFactory_loaded
   \<and> (\<exists>text w'.
        generate_report example_builtins ReportGeneratorFactory_loaded FormatterFactory_loaded
          DeliveryFactory_loaded ''financial'' example_financial_data ''pdf'' ''download''
          ([], \<lparr>stdout = [], now_calls = 0\<rparr>) =
        (Inr text,
         [\<lparr>report_type = ''financial'', output_format = ''pdf'', delivery_method = ''download'',
           timestamp' = ''%Y-%m-%d %H:%M:%S at 2''\<rparr>], w'))"
proof -
  let ?w = "\<lparr>stdout = [], now_calls = 0\<rparr>"
  let ?s = "([] :: ReportRecord list, ?w)"
  note T = generate_report_all_or_nothing[where generators = ReportGeneratorFactory_loaded
      and formatters = FormatterFactory_loaded and methods = DeliveryFactory_loaded
      and py = example_builtins and d = example_financial_data and s = ?s
      and rtype = "''financial''"]
  have cg: "dict_contains ''financial'' ReportGeneratorFactory_loaded"
    and cf: "dict_contains ''pdf'' FormatterFactory_loaded"
    and cm: "dict_contains ''download'' DeliveryFactory_loaded"
    and nf: "\<not> dict_contains ''csv'' FormatterFactory_loaded"
    by (simp_all add: report_loaded_defs dict_contains_def)
  have fail: "generate_report example_builtins ReportGeneratorFactory_loaded FormatterFactory_loaded
        DeliveryFactory_loaded ''financial'' example_financial_data ''csv'' ''email'' ?s =
       (Inl (Exc ValueError ''Formato desconocido: csv''), ?s)"
    using T[where oformat = "''csv''" and dmethod = "''email''", THEN conjunct2, THEN conjunct1, rule_format,
        OF conjI[OF cg nf]]
    by simp
  from T[where oformat = "''pdf''" and dmethod = "''download''", THEN conjunct2, THEN conjunct2,
      THEN conjunct2, rule_format, OF conjI[OF cg conjI[OF cf cm]]]
  obtain g f m content w1 formatted w2 w' where
    g: "dict_getitem ReportGeneratorFactory_loaded ''financial'' = Some g" and
    f: "dict_getitem FormatterFactory_loaded ''pdf'' = Some f" and
    m: "dict_getitem DeliveryFactory_loaded ''download'' = Some m" and
    c: "generate example_builtins g example_financial_data (snd ?s) = (content, w1)" and
    fm: "format f content w1 = (formatted, w2)" and
    r: "generate_report example_builtins ReportGeneratorFactory_loaded FormatterFactory_loaded
          DeliveryFactory_loaded ''financial'' example_financial_data ''pdf'' ''download'' ?s =
        (Inr formatted,
         fst ?s @ [\<lparr>report_type = ''financial'', output_format = ''pdf'',
                    delivery_method = ''download'',
                    timestamp' = strftime example_builtins
                      (now_calls (deliver m example_builtins formatted ''financial''
                                    (get_file_extension f) w2))
                      ''%Y-%m-%d %H:%M:%S''\<rparr>],
         w')"
    by (elim exE conjE)
  from g have g': "g = FinancialReportGenerator"
    by (simp add: report_loaded_defs dict_getitem_def)
  from f have f': "f = PDFFormatter"
    by (simp add: report_loaded_defs dict_getitem_def)
  from m have m': "m = DownloadDelivery"
    by (simp add: report_loaded_defs dict_getitem_def)
  from c have w1: "now_calls w1 = 1"
    by (auto simp: generate_def build_header_def datetime_now_def Let_def)
  from fm have w2: "now_calls w2 = 1"
    by (auto simp: f' PDFFormatter_def PDFFormatter_format_def print_def w1)
  have n: "now_calls (deliver m example_builtins formatted ''financial'' (get_file_extension f) w2) = 2"
    by (simp add: m' DownloadDelivery_def DownloadDelivery_deliver_def datetime_now_def print_def
        Let_def w2)
  have ts: "strftime example_builtins 2 ''%Y-%m-%d %H:%M:%S'' = ''%Y-%m-%d %H:%M:%S at 2''"
    by (simp add: example_builtins_def)
  from r have "generate_report example_builtins ReportGeneratorFactory_loaded FormatterFactory_loaded
          DeliveryFactory_loaded ''financial'' example_financial_data ''pdf'' ''download'' ?s =
        (Inr formatted,
         [\<lparr>report_type = ''financial'', output_format = ''pdf'', delivery_method = ''download'',
           timestamp' = ''%Y-%m-%d %H:%M:%S at 2''\<rparr>], w')"
    by (simp add: n ts)
  with cg nf fail cf cm show ?thesis by (intro conjI exI)
qed

end
